theory Spec2Isabelle
  imports Main
begin

section \<open>Shared vocabulary of the sync library\<close>

text \<open>
  The browser code verified here (\<^verbatim>\<open>sync/startup_controller.cc\<close> and
  \<^verbatim>\<open>sync/glue/generic_change_processor.cc\<close>) is written against the sync
  library, whose headers are not part of the repository. Its enumerations are
  modelled as datatypes: the enumerators the two files name, and one more
  constructor for every value the files do not name.
\<close>

datatype ModelType = UNSPECIFIED | BOOKMARKS | ModelType nat

section \<open>The startup controller\<close>

text \<open>
  \<^verbatim>\<open>base::Time\<close> wraps a count of microseconds; the default-constructed
  \<^verbatim>\<open>base::Time()\<close> holds 0 and \<^verbatim>\<open>is_null()\<close> tests for it.
\<close>

type_synonym time = int

definition is_null :: "time \<Rightarrow> bool" where
  "is_null t \<longleftrightarrow> t = 0"

datatype ProfileSyncServiceStartBehavior = AUTO_START | MANUAL_START

datatype StartUpDeferredOption = STARTUP_BACKEND_DEFERRED | STARTUP_IMMEDIATE

datatype DeferredInitTrigger = TRIGGER_DATA_TYPE_REQUEST | TRIGGER_FALLBACK_TIMER

text \<open>
  The four histograms the controller records, named as in the UMA macros
  (\<^verbatim>\<open>Sync.RefreshTokenAvailable\<close>, \<^verbatim>\<open>Sync.Startup.TimeDeferred\<close>,
  \<^verbatim>\<open>Sync.Startup.TypeTriggeringInit\<close>, \<^verbatim>\<open>Sync.Startup.DeferredInitTrigger\<close>).
  The type-triggering sample keeps the model type itself, of which
  \<^verbatim>\<open>ModelTypeToHistogramInt\<close> is a function.
\<close>

datatype uma_sample =
    Sync_RefreshTokenAvailable bool
  | Sync_Startup_TimeDeferred int
  | Sync_Startup_TypeTriggeringInit ModelType
  | Sync_Startup_DeferredInitTrigger DeferredInitTrigger

text \<open>
  What the controller does to the world outside its own members, in the order
  it does it: running the \<^verbatim>\<open>start_backend\<close> closure, posting the delayed
  \<^verbatim>\<open>OnFallbackStartupTimerExpired\<close> task (with its delay), invalidating the weak
  pointers the posted tasks hold, and recording a histogram sample.
\<close>

datatype effect =
    StartBackend_Run
  | PostDelayedTask int
  | InvalidateWeakPtrs
  | UMA uma_sample

text \<open>
  What the controller reads from its collaborators during one call: the sync
  preferences, the sign-in wrapper, the token service (\<open>None\<close> is the null pointer,
  \<open>Some f\<close> a service whose \<^verbatim>\<open>RefreshTokenIsAvailable\<close> is \<open>f\<close>), the command-line switch
  \<^verbatim>\<open>kSyncEnableDeferredStartup\<close>, and the clock: \<open>Now env k\<close> is what the \<open>k\<close>-th
  call of \<^verbatim>\<open>base::Time::Now()\<close> returns.
\<close>

record startup_env =
  IsManaged :: bool
  IsStartSuppressed :: bool
  HasSyncSetupCompleted :: bool
  GetEffectiveUsername :: string
  GetAccountIdToUse :: string
  token_service :: "(string \<Rightarrow> bool) option"
  kSyncEnableDeferredStartup :: bool
  Now :: "nat \<Rightarrow> time"

text \<open>
  The members of \<^verbatim>\<open>StartupController\<close> (a name cannot end in an underscore
  here, so \<^verbatim>\<open>start_up_time_\<close> is \<open>start_up_time\<close>, and so on), followed by the
  two fields that make its effects observable: the number of clock readings taken
  so far and the effects performed so far.
\<close>

record startup_controller =
  received_start_request :: bool
  setup_in_progress :: bool
  auto_start_enabled :: bool
  start_up_time :: time
  start_backend_time :: time
  fallback_timeout :: int
  now_calls :: nat
  effects :: "effect list"

definition kDeferredInitFallbackSeconds :: int where
  "kDeferredInitFallbackSeconds = 10"

definition StartupController :: "ProfileSyncServiceStartBehavior \<Rightarrow> startup_controller" where
  "StartupController start_behavior =
     \<lparr> received_start_request = False,
       setup_in_progress = False,
       auto_start_enabled = (start_behavior = AUTO_START),
       start_up_time = 0,
       start_backend_time = 0,
       fallback_timeout = kDeferredInitFallbackSeconds,
       now_calls = 0,
       effects = [] \<rparr>"

definition Time_Now :: "startup_env \<Rightarrow> startup_controller \<Rightarrow> time \<times> startup_controller" where
  "Time_Now env c = (Now env (now_calls c), c\<lparr>now_calls := Suc (now_calls c)\<rparr>)"

definition perform :: "effect \<Rightarrow> startup_controller \<Rightarrow> startup_controller" where
  "perform e c = c\<lparr>effects := effects c @ [e]\<rparr>"

definition Reset :: "startup_controller \<Rightarrow> startup_controller" where
  "Reset c =
     perform InvalidateWeakPtrs
       (c\<lparr>received_start_request := False,
          setup_in_progress := False,
          start_up_time := 0,
          start_backend_time := 0\<rparr>)"

definition set_setup_in_progress :: "bool \<Rightarrow> startup_controller \<Rightarrow> startup_controller" where
  "set_setup_in_progress in_progress c = c\<lparr>setup_in_progress := in_progress\<rparr>"

definition OverrideFallbackTimeoutForTest :: "int \<Rightarrow> startup_controller \<Rightarrow> startup_controller" where
  "OverrideFallbackTimeoutForTest timeout c = c\<lparr>fallback_timeout := timeout\<rparr>"

definition StartUp ::
  "startup_env \<Rightarrow> StartUpDeferredOption \<Rightarrow> startup_controller \<Rightarrow> bool \<times> startup_controller" where
  "StartUp env deferred_option c =
     (let first_start = is_null (start_up_time c);
          c1 = (if first_start
                then (case Time_Now env c of (now, c') \<Rightarrow> c'\<lparr>start_up_time := now\<rparr>)
                else c)
      in if deferred_option = STARTUP_BACKEND_DEFERRED \<and> kSyncEnableDeferredStartup env
         then (False,
               if first_start then perform (PostDelayedTask (fallback_timeout c1)) c1 else c1)
         else if is_null (start_backend_time c1)
         then (case Time_Now env c1 of
                 (now, c2) \<Rightarrow> (True, perform StartBackend_Run (c2\<lparr>start_backend_time := now\<rparr>)))
         else (True, c1))"

definition TryStart :: "startup_env \<Rightarrow> startup_controller \<Rightarrow> bool \<times> startup_controller" where
  "TryStart env c =
     (if IsManaged env then (False, c)
      else if IsStartSuppressed env then (False, c)
      else if GetEffectiveUsername env = [] then (False, c)
      else case token_service env of
        None \<Rightarrow> (False, c)
      | Some RefreshTokenIsAvailable \<Rightarrow>
          if \<not> RefreshTokenIsAvailable (GetAccountIdToUse env) then (False, c)
          else
            let c1 = perform (UMA (Sync_RefreshTokenAvailable True)) c
            in if HasSyncSetupCompleted env then
                 (if \<not> received_start_request c1
                  then StartUp env STARTUP_BACKEND_DEFERRED c1
                  else StartUp env STARTUP_IMMEDIATE c1)
               else if setup_in_progress c1 \<or> auto_start_enabled c1 then
                 StartUp env STARTUP_IMMEDIATE c1
               else (False, c1))"

text \<open>
  The two \<^verbatim>\<open>DCHECK\<close>s of \<^verbatim>\<open>OnFallbackStartupTimerExpired\<close> (the switch is set, and
  \<^verbatim>\<open>start_up_time\<close> is not null) are compiled out of release builds; the model is
  the release behaviour.
\<close>

definition OnFallbackStartupTimerExpired :: "startup_env \<Rightarrow> startup_controller \<Rightarrow> startup_controller" where
  "OnFallbackStartupTimerExpired env c =
     (if \<not> is_null (start_backend_time c) then c
      else case Time_Now env c of
        (now, c1) \<Rightarrow>
          let time_deferred = now - start_up_time c1;
              c2 = perform (UMA (Sync_Startup_TimeDeferred time_deferred)) c1;
              c3 = perform (UMA (Sync_Startup_DeferredInitTrigger TRIGGER_FALLBACK_TIMER)) c2;
              c4 = c3\<lparr>received_start_request := True\<rparr>
          in snd (TryStart env c4))"

definition GetBackendInitializationStateString :: "startup_controller \<Rightarrow> string" where
  "GetBackendInitializationStateString c =
     (if \<not> is_null (start_backend_time c) then ''Started''
      else if \<not> is_null (start_up_time c) then ''Deferred''
      else ''Not started'')"

definition OnDataTypeRequestsSyncStartup ::
  "startup_env \<Rightarrow> ModelType \<Rightarrow> startup_controller \<Rightarrow> startup_controller" where
  "OnDataTypeRequestsSyncStartup env type c =
     (if \<not> kSyncEnableDeferredStartup env then c
      else if \<not> is_null (start_backend_time c) then c
      else
        let c1 = (if \<not> is_null (start_up_time c)
                  then (case Time_Now env c of
                          (now, c') \<Rightarrow>
                            let time_deferred = now - start_up_time c'
                            in perform (UMA (Sync_Startup_DeferredInitTrigger TRIGGER_DATA_TYPE_REQUEST))
                                 (perform (UMA (Sync_Startup_TypeTriggeringInit type))
                                    (perform (UMA (Sync_Startup_TimeDeferred time_deferred)) c')))
                  else c);
            c2 = c1\<lparr>received_start_request := True\<rparr>
        in snd (TryStart env c2))"

text \<open>
  A lifetime of the controller is a sequence of calls of its public methods other
  than \<^verbatim>\<open>Reset\<close>, each made in the environment of its moment. The timer callback is
  allowed at any point of the sequence, which covers every moment the message loop
  can run it.
\<close>

datatype call =
    Call_TryStart
  | Call_set_setup_in_progress bool
  | Call_OverrideFallbackTimeoutForTest int
  | Call_OnFallbackStartupTimerExpired
  | Call_OnDataTypeRequestsSyncStartup ModelType

fun do_call :: "startup_env \<Rightarrow> call \<Rightarrow> startup_controller \<Rightarrow> startup_controller" where
  "do_call env Call_TryStart c = snd (TryStart env c)"
| "do_call env (Call_set_setup_in_progress b) c = set_setup_in_progress b c"
| "do_call env (Call_OverrideFallbackTimeoutForTest t) c = OverrideFallbackTimeoutForTest t c"
| "do_call env Call_OnFallbackStartupTimerExpired c = OnFallbackStartupTimerExpired env c"
| "do_call env (Call_OnDataTypeRequestsSyncStartup type) c = OnDataTypeRequestsSyncStartup env type c"

fun run_calls :: "(startup_env \<times> call) list \<Rightarrow> startup_controller \<Rightarrow> startup_controller" where
  "run_calls [] c = c"
| "run_calls ((env, k) # ks) c = run_calls ks (do_call env k c)"

definition backend_runs :: "startup_controller \<Rightarrow> nat" where
  "backend_runs c = length (filter (\<lambda>e. e = StartBackend_Run) (effects c))"

section \<open>The generic change processor\<close>

subsection \<open>The sync library as the processor sees it\<close>

datatype InitByLookupResult =
    INIT_OK
  | INIT_FAILED_ENTRY_NOT_GOOD
  | INIT_FAILED_ENTRY_IS_DEL
  | INIT_FAILED_DECRYPT_IF_NECESSARY
  | INIT_FAILED_PRECONDITION
  | InitByLookupResult nat

datatype InitUniqueByCreationResult =
    INIT_SUCCESS
  | INIT_FAILED_EMPTY_TAG
  | INIT_FAILED_ENTRY_ALREADY_EXISTS
  | INIT_FAILED_COULD_NOT_CREATE_ENTRY
  | INIT_FAILED_SET_PREDECESSOR
  | InitUniqueByCreationResult nat

text \<open>
  \<^verbatim>\<open>ChangeRecord::Action\<close> and \<^verbatim>\<open>SyncChange::SyncChangeType\<close> share enumerator names
  in the source; the prefix tells them apart.
\<close>

datatype ChangeRecord_Action =
  ChangeRecord_ACTION_ADD | ChangeRecord_ACTION_DELETE | ChangeRecord_ACTION_UPDATE

datatype SyncChangeType = ACTION_INVALID | ACTION_ADD | ACTION_UPDATE | ACTION_DELETE

text \<open>
  An \<^verbatim>\<open>EntitySpecifics\<close> message: the datatype whose extension it holds (what
  \<^verbatim>\<open>GetModelTypeFromSpecifics\<close> reads), the optional \<^verbatim>\<open>encrypted\<close> blob
  (\<^verbatim>\<open>has_encrypted()\<close> is \<open>encrypted \<noteq> None\<close>), and the rest of the payload.
\<close>

record EntitySpecifics =
  specifics_type :: ModelType
  encrypted :: "string option"
  payload :: string

text \<open>
  \<^verbatim>\<open>SyncData\<close>: local data carries a client tag, a title and specifics; remote data
  carries a node id and specifics. The tag and title of remote data are the empty
  defaults of the underlying message.
\<close>

datatype SyncData =
    LocalData string string EntitySpecifics
  | RemoteData int EntitySpecifics

definition CreateRemoteData :: "int \<Rightarrow> EntitySpecifics \<Rightarrow> SyncData" where
  "CreateRemoteData i specifics = RemoteData i specifics"

fun IsLocal :: "SyncData \<Rightarrow> bool" where
  "IsLocal (LocalData tag title specifics) = True"
| "IsLocal (RemoteData i specifics) = False"

fun GetTag :: "SyncData \<Rightarrow> string" where
  "GetTag (LocalData tag title specifics) = tag"
| "GetTag (RemoteData i specifics) = []"

fun GetTitle :: "SyncData \<Rightarrow> string" where
  "GetTitle (LocalData tag title specifics) = title"
| "GetTitle (RemoteData i specifics) = []"

fun GetSpecifics :: "SyncData \<Rightarrow> EntitySpecifics" where
  "GetSpecifics (LocalData tag title specifics) = specifics"
| "GetSpecifics (RemoteData i specifics) = specifics"

definition GetDataType :: "SyncData \<Rightarrow> ModelType" where
  "GetDataType d = specifics_type (GetSpecifics d)"

record SyncChange =
  change_type :: SyncChangeType
  sync_data :: SyncData

record ChangeRecord =
  record_id :: int
  action :: ChangeRecord_Action
  specifics :: EntitySpecifics

text \<open>
  A set \<^verbatim>\<open>SyncError\<close> carries a message and a datatype (its source location is left
  out); the unset error \<^verbatim>\<open>SyncError()\<close> is \<open>None\<close> of \<open>SyncError option\<close>, and
  \<^verbatim>\<open>IsSet()\<close> is \<open>\<noteq> None\<close>.
\<close>

record SyncError =
  message :: string
  error_type :: ModelType

text \<open>
  The free functions and constants of the libraries the file calls:
  \<^verbatim>\<open>syncable::ModelTypeToString\<close>, \<^verbatim>\<open>syncable::ModelTypeToRootTag\<close>,
  \<^verbatim>\<open>base::Int64ToString\<close> and \<^verbatim>\<open>csync::kInvalidId\<close>. They are parameters of the
  model.
\<close>

record sync_library =
  ModelTypeToString :: "ModelType \<Rightarrow> string"
  ModelTypeToRootTag :: "ModelType \<Rightarrow> string"
  Int64ToString :: "int \<Rightarrow> string"
  kInvalidId :: int

text \<open>
  What a node shows once a lookup has loaded its entry: the accessors of
  \<^verbatim>\<open>BaseNode\<close> the file calls, and \<open>SPECIFICS\<close>, the raw specifics of the entry
  (\<^verbatim>\<open>GetEntry()->Get(syncable::SPECIFICS)\<close>), which stay readable when the lookup
  found the entry and then failed.
\<close>

record BaseNode =
  GetId :: int
  GetEntitySpecifics :: EntitySpecifics
  GetFirstChildId :: int
  GetSuccessorId :: int
  SPECIFICS :: EntitySpecifics

text \<open>
  The directory as one transaction sees it at one moment: the result of each
  lookup together with the node it loads, what \<^verbatim>\<open>InitUniqueByCreation\<close> would
  answer, and the cryptographer (\<^verbatim>\<open>GetEncryptedTypes\<close>, \<^verbatim>\<open>CanDecrypt\<close>).
\<close>

record BaseTransaction =
  InitByIdLookup :: "int \<Rightarrow> InitByLookupResult \<times> BaseNode"
  InitByClientTagLookup :: "ModelType \<Rightarrow> string \<Rightarrow> InitByLookupResult \<times> BaseNode"
  InitByTagLookup :: "string \<Rightarrow> InitByLookupResult \<times> BaseNode"
  InitUniqueByCreation :: "ModelType \<Rightarrow> BaseNode \<Rightarrow> string \<Rightarrow> InitUniqueByCreationResult \<times> BaseNode"
  GetEncryptedTypes :: "ModelType set"
  CanDecrypt :: "string \<Rightarrow> bool"

text \<open>
  The mutating calls a write transaction makes on its nodes, each with the id of
  the node it is made on (for a creation: the type, the id of the parent and the
  tag). \<^verbatim>\<open>SetTitle\<close> is recorded with the UTF-8 title it is given, of which the
  wide string is a function.
\<close>

datatype WriteNode_call =
    Call_InitUniqueByCreation ModelType int string
  | Call_SetTitle int string
  | Call_SetEntitySpecifics int EntitySpecifics
  | Call_Remove int

text \<open>
  The user share: the directory a write transaction sees after the mutating calls
  it has made so far. Any deterministic store is such a function.
\<close>

type_synonym UserShare = "WriteNode_call list \<Rightarrow> BaseTransaction"

subsection \<open>The processor\<close>

text \<open>
  The members of \<^verbatim>\<open>GenericChangeProcessor\<close>: \<open>running\<close> (of the base class
  \<^verbatim>\<open>ChangeProcessor\<close>), the weak pointer \<open>local_service\<close> (\<open>None\<close> once the service is
  destroyed, \<open>Some f\<close> a service whose \<^verbatim>\<open>ProcessSyncChanges\<close> answers \<open>f\<close>) and the
  staging buffer \<open>syncer_changes\<close>; then what makes its effects observable: the
  messages given to \<^verbatim>\<open>OnSingleDatatypeUnrecoverableError\<close> and the lists delivered to
  the local service, both in order.
\<close>

record GenericChangeProcessor =
  running :: bool
  local_service :: "(SyncChange list \<Rightarrow> SyncError option) option"
  syncer_changes :: "SyncChange list"
  error_handler_calls :: "string list"
  delivered :: "SyncChange list list"

definition OnSingleDatatypeUnrecoverableError :: "string \<Rightarrow> string list \<Rightarrow> string list" where
  "OnSingleDatatypeUnrecoverableError msg handler = handler @ [msg]"

text \<open>
  \<^verbatim>\<open>ApplyChangesFromSyncModel\<close> opens with three \<^verbatim>\<open>DCHECK\<close>s, compiled out of release
  builds. The two about the processor are kept as a predicate; the model of the
  function is the release behaviour.
\<close>

definition ApplyChangesFromSyncModel_DCHECKs :: "GenericChangeProcessor \<Rightarrow> bool" where
  "ApplyChangesFromSyncModel_DCHECKs p \<longleftrightarrow> running p \<and> syncer_changes p = []"

fun ApplyChangesFromSyncModel ::
  "sync_library \<Rightarrow> BaseTransaction \<Rightarrow> ChangeRecord list \<Rightarrow> GenericChangeProcessor \<Rightarrow>
   GenericChangeProcessor" where
  "ApplyChangesFromSyncModel lib trans' [] p = p"
| "ApplyChangesFromSyncModel lib trans' (it # changes) p =
     (if action it = ChangeRecord_ACTION_DELETE then
        ApplyChangesFromSyncModel lib trans' changes
          (p\<lparr>syncer_changes := syncer_changes p @
               [\<lparr>change_type = ACTION_DELETE,
                 sync_data = CreateRemoteData (record_id it) (specifics it)\<rparr>]\<rparr>)
      else
        let action' = (if action it = ChangeRecord_ACTION_ADD then ACTION_ADD else ACTION_UPDATE);
            read_node = InitByIdLookup trans' (record_id it)
        in if fst read_node \<noteq> INIT_OK then
             p\<lparr>error_handler_calls :=
                 OnSingleDatatypeUnrecoverableError
                   (''Failed to look up data for received change with id '' @
                      Int64ToString lib (record_id it))
                   (error_handler_calls p)\<rparr>
           else
             ApplyChangesFromSyncModel lib trans' changes
               (p\<lparr>syncer_changes := syncer_changes p @
                    [\<lparr>change_type = action',
                      sync_data = CreateRemoteData (record_id it)
                                    (GetEntitySpecifics (snd read_node))\<rparr>]\<rparr>))"

definition CommitChangesFromSyncModel :: "GenericChangeProcessor \<Rightarrow> GenericChangeProcessor" where
  "CommitChangesFromSyncModel p =
     (if \<not> running p then p
      else if syncer_changes p = [] then p
      else case local_service p of
        None \<Rightarrow>
          let type = GetDataType (sync_data (hd (syncer_changes p)));
              error = \<lparr>message = ''Local service destroyed.'', error_type = type\<rparr>
          in p\<lparr>error_handler_calls :=
                 OnSingleDatatypeUnrecoverableError (message error) (error_handler_calls p)\<rparr>
      | Some ProcessSyncChanges' \<Rightarrow>
          let error = ProcessSyncChanges' (syncer_changes p);
              p1 = p\<lparr>delivered := delivered p @ [syncer_changes p], syncer_changes := []\<rparr>
          in (case error of
                None \<Rightarrow> p1
              | Some e \<Rightarrow>
                  p1\<lparr>error_handler_calls :=
                       OnSingleDatatypeUnrecoverableError (message e) (error_handler_calls p1)\<rparr>))"

text \<open>
  \<^verbatim>\<open>GetSyncDataForType\<close> returns an error (unset on success) and appends to the
  caller's list, so the model returns both. Its \<^verbatim>\<open>while\<close> loop follows successor
  ids for as long as the directory supplies them, so the loop is a partial
  function: \<open>None\<close> is a traversal that never ends. The \<^verbatim>\<open>DCHECK_NE\<close> on
  \<^verbatim>\<open>BOOKMARKS\<close> is compiled out of release builds.
\<close>

partial_function (option) GetSyncDataForType_loop ::
  "sync_library \<Rightarrow> BaseTransaction \<Rightarrow> ModelType \<Rightarrow> string \<Rightarrow> int \<Rightarrow> SyncData list \<Rightarrow>
   (SyncError option \<times> SyncData list) option" where
  "GetSyncDataForType_loop lib trans' type type_name sync_child_id current_sync_data =
     (if sync_child_id \<noteq> kInvalidId lib then
        (let sync_child_node = InitByIdLookup trans' sync_child_id
         in if fst sync_child_node \<noteq> INIT_OK then
              Some (Some \<lparr>message = ''Failed to fetch child node for type '' @ type_name @ ''.'',
                           error_type = type\<rparr>,
                    current_sync_data)
            else
              GetSyncDataForType_loop lib trans' type type_name
                (GetSuccessorId (snd sync_child_node))
                (current_sync_data @
                   [CreateRemoteData (GetId (snd sync_child_node))
                      (GetEntitySpecifics (snd sync_child_node))]))
      else Some (None, current_sync_data))"

definition GetSyncDataForType ::
  "sync_library \<Rightarrow> BaseTransaction \<Rightarrow> ModelType \<Rightarrow> SyncData list \<Rightarrow>
   (SyncError option \<times> SyncData list) option" where
  "GetSyncDataForType lib trans' type current_sync_data =
     (let type_name = ModelTypeToString lib type;
          root = InitByTagLookup trans' (ModelTypeToRootTag lib type)
      in if fst root \<noteq> INIT_OK then
           Some (Some \<lparr>message = ''Server did not create the top-level '' @ type_name @
                          '' node. We might be running against an out-of-date server.'',
                        error_type = type\<rparr>,
                 current_sync_data)
         else
           GetSyncDataForType_loop lib trans' type type_name (GetFirstChildId (snd root))
             current_sync_data)"

subsection \<open>The outbound stage\<close>

text \<open>
  \<^verbatim>\<open>GetRemoteId\<close> is called on remote data only (\<^verbatim>\<open>AttemptDelete\<close> tests
  \<^verbatim>\<open>IsLocal\<close> first).
\<close>

primrec GetRemoteId :: "SyncData \<Rightarrow> int" where
  "GetRemoteId (RemoteData i sp) = i"

text \<open>
  How one pass over a change ends: with a set error that is returned, with no
  error (the loop goes on; at the end of the list the unset \<^verbatim>\<open>SyncError()\<close> is
  returned), or in the fatal \<^verbatim>\<open>CHECK\<close>. \<^verbatim>\<open>NOTREACHED()\<close> and \<^verbatim>\<open>DCHECK\<close> are compiled
  out of release builds, \<^verbatim>\<open>CHECK\<close> is not.
\<close>

datatype outcome = NoError | Error SyncError | CHECK_failed

text \<open>
  Every error site of the file builds the error, gives its message to the error
  handler and returns the error; \<open>calls\<close> are the mutating calls made before.
\<close>

definition report ::
  "SyncError \<Rightarrow> WriteNode_call list \<Rightarrow> string list \<Rightarrow> outcome \<times> WriteNode_call list \<times> string list" where
  "report error calls error_handler =
     (Error error, calls, OnSingleDatatypeUnrecoverableError (message error) error_handler)"

definition LogLookupFailure ::
  "InitByLookupResult \<Rightarrow> string \<Rightarrow> ModelType \<Rightarrow> string list \<Rightarrow>
   outcome \<times> WriteNode_call list \<times> string list" where
  "LogLookupFailure lookup_result error_prefix type error_handler =
     (case lookup_result of
        INIT_FAILED_ENTRY_NOT_GOOD \<Rightarrow>
          report \<lparr>message = error_prefix @ ''could not find entry matching the lookup criteria.'',
                  error_type = type\<rparr> [] error_handler
      | INIT_FAILED_ENTRY_IS_DEL \<Rightarrow>
          report \<lparr>message = error_prefix @ ''entry is already deleted.'',
                  error_type = type\<rparr> [] error_handler
      | INIT_FAILED_DECRYPT_IF_NECESSARY \<Rightarrow>
          report \<lparr>message = error_prefix @ ''unable to decrypt'',
                  error_type = type\<rparr> [] error_handler
      | INIT_FAILED_PRECONDITION \<Rightarrow>
          report \<lparr>message = error_prefix @ ''a precondition was not met for calling init.'',
                  error_type = type\<rparr> [] error_handler
      | _ \<Rightarrow>
          report \<lparr>message = error_prefix @ ''unknown error'',
                  error_type = type\<rparr> [] error_handler)"

definition AttemptDelete ::
  "SyncChange \<Rightarrow> ModelType \<Rightarrow> string \<Rightarrow> BaseTransaction \<Rightarrow> string list \<Rightarrow>
   outcome \<times> WriteNode_call list \<times> string list" where
  "AttemptDelete change type type_str trans' error_handler =
     (if IsLocal (sync_data change) then
        (let tag = GetTag (sync_data change)
         in if tag = [] then
              report \<lparr>message = ''Failed to delete '' @ type_str @ '' node. Local data, empty tag.'',
                      error_type = type\<rparr> [] error_handler
            else
              let node = InitByClientTagLookup trans' (GetDataType (sync_data change)) tag
              in if fst node \<noteq> INIT_OK then
                   LogLookupFailure (fst node)
                     (''Failed to delete '' @ type_str @ '' node. Local data, '')
                     type error_handler
                 else (NoError, [Call_Remove (GetId (snd node))], error_handler))
      else
        (let node = InitByIdLookup trans' (GetRemoteId (sync_data change))
         in if fst node \<noteq> INIT_OK then
              LogLookupFailure (fst node)
                (''Failed to delete '' @ type_str @ '' node. Non-local data, '')
                type error_handler
            else (NoError, [Call_Remove (GetId (snd node))], error_handler)))"

text \<open>
  The body of the \<^verbatim>\<open>for\<close> loop of \<^verbatim>\<open>ProcessSyncChanges\<close>, for one change, in the
  directory \<open>trans'\<close> that the write transaction sees when the change is reached. It
  returns how the pass ends, the mutating calls it made and the error handler.
\<close>

definition ProcessSyncChanges_body ::
  "sync_library \<Rightarrow> BaseTransaction \<Rightarrow> SyncChange \<Rightarrow> string list \<Rightarrow>
   outcome \<times> WriteNode_call list \<times> string list" where
  "ProcessSyncChanges_body lib trans' change error_handler =
     (let type = GetDataType (sync_data change);
          type_str = ModelTypeToString lib type
      in
      if change_type change = ACTION_DELETE then
        AttemptDelete change type type_str trans' error_handler
      else if change_type change = ACTION_ADD then
        (let root_node = InitByTagLookup trans' (ModelTypeToRootTag lib (GetDataType (sync_data change)))
         in if fst root_node \<noteq> INIT_OK then
              report \<lparr>message = ''Failed to look up root node for type '' @ type_str,
                      error_type = type\<rparr> [] error_handler
            else
              let sync_node = InitUniqueByCreation trans' (GetDataType (sync_data change))
                                (snd root_node) (GetTag (sync_data change));
                  result = fst sync_node;
                  created = [Call_InitUniqueByCreation (GetDataType (sync_data change))
                               (GetId (snd root_node)) (GetTag (sync_data change))]
              in if result \<noteq> INIT_SUCCESS then
                   (let error_prefix = ''Failed to create '' @ type_str @ '' node: ''
                    in case result of
                         INIT_FAILED_EMPTY_TAG \<Rightarrow>
                           report \<lparr>message = error_prefix @ ''empty tag'',
                                   error_type = type\<rparr> created error_handler
                       | INIT_FAILED_ENTRY_ALREADY_EXISTS \<Rightarrow>
                           report \<lparr>message = error_prefix @ ''entry already exists'',
                                   error_type = type\<rparr> created error_handler
                       | INIT_FAILED_COULD_NOT_CREATE_ENTRY \<Rightarrow>
                           report \<lparr>message = error_prefix @ ''failed to create entry'',
                                   error_type = type\<rparr> created error_handler
                       | INIT_FAILED_SET_PREDECESSOR \<Rightarrow>
                           report \<lparr>message = error_prefix @ ''failed to set predecessor'',
                                   error_type = type\<rparr> created error_handler
                       | _ \<Rightarrow>
                           report \<lparr>message = error_prefix @ ''unknown error'',
                                   error_type = type\<rparr> created error_handler)
                 else
                   (NoError,
                    created @
                      [Call_SetTitle (GetId (snd sync_node)) (GetTitle (sync_data change)),
                       Call_SetEntitySpecifics (GetId (snd sync_node)) (GetSpecifics (sync_data change))],
                    error_handler))
      else if change_type change = ACTION_UPDATE then
        (let sync_node = InitByClientTagLookup trans' (GetDataType (sync_data change))
                           (GetTag (sync_data change));
             result = fst sync_node
         in if result \<noteq> INIT_OK then
              (if result = INIT_FAILED_PRECONDITION then
                 report \<lparr>message = ''Failed to load entry w/empty tag for '' @ type_str @ ''.'',
                         error_type = type\<rparr> [] error_handler
               else if result = INIT_FAILED_ENTRY_NOT_GOOD then
                 report \<lparr>message = ''Failed to load bad entry for '' @ type_str @ ''.'',
                         error_type = type\<rparr> [] error_handler
               else if result = INIT_FAILED_ENTRY_IS_DEL then
                 report \<lparr>message = ''Failed to load deleted entry for '' @ type_str @ ''.'',
                         error_type = type\<rparr> [] error_handler
               else
                 (let encrypted_types = GetEncryptedTypes trans';
                      specifics' = SPECIFICS (snd sync_node)
                  in case encrypted specifics' of
                       None \<Rightarrow> (CHECK_failed, [], error_handler)
                     | Some blob \<Rightarrow>
                         let can_decrypt = CanDecrypt trans' blob;
                             agreement = (type \<in> encrypted_types)
                         in if \<not> agreement \<and> \<not> can_decrypt then
                              report \<lparr>message = ''Failed to load encrypted entry, missing key and '' @
                                                  ''nigori mismatch for '' @ type_str @ ''.'',
                                      error_type = type\<rparr> [] error_handler
                            else if agreement \<and> can_decrypt then
                              report \<lparr>message = ''Failed to load encrypted entry, we have the key '' @
                                                  ''and the nigori matches (?!) for '' @ type_str @ ''.'',
                                      error_type = type\<rparr> [] error_handler
                            else if agreement then
                              report \<lparr>message = ''Failed to load encrypted entry, missing key and '' @
                                                  ''the nigori matches for '' @ type_str @ ''.'',
                                      error_type = type\<rparr> [] error_handler
                            else
                              report \<lparr>message = ''Failed to load encrypted entry, we have the key'' @
                                                  ''(?!) and nigori mismatch for '' @ type_str @ ''.'',
                                      error_type = type\<rparr> [] error_handler))
            else
              (NoError,
               [Call_SetTitle (GetId (snd sync_node)) (GetTitle (sync_data change)),
                Call_SetEntitySpecifics (GetId (snd sync_node)) (GetSpecifics (sync_data change))],
               error_handler))
      else
        report \<lparr>message = ''Received unset csync::SyncChange in the change processor.'',
                error_type = type\<rparr> [] error_handler)"

text \<open>
  The loop: \<open>calls\<close> are the mutating calls the write transaction has made so far.
  A pass that ends with no error goes on to the next change; any other ending is
  the function's. Nothing undoes a call: the transaction is released on return
  and commits what was done.
\<close>

fun ProcessSyncChanges_loop ::
  "sync_library \<Rightarrow> UserShare \<Rightarrow> SyncChange list \<Rightarrow> WriteNode_call list \<Rightarrow> string list \<Rightarrow>
   outcome \<times> WriteNode_call list \<times> string list" where
  "ProcessSyncChanges_loop lib share_handle [] calls error_handler = (NoError, calls, error_handler)"
| "ProcessSyncChanges_loop lib share_handle (change # rest) calls error_handler =
     (case ProcessSyncChanges_body lib (share_handle calls) change error_handler of
        (NoError, made, error_handler') \<Rightarrow>
          ProcessSyncChanges_loop lib share_handle rest (calls @ made) error_handler'
      | (ending, made, error_handler') \<Rightarrow> (ending, calls @ made, error_handler'))"

definition ProcessSyncChanges ::
  "sync_library \<Rightarrow> UserShare \<Rightarrow> SyncChange list \<Rightarrow> string list \<Rightarrow>
   outcome \<times> WriteNode_call list \<times> string list" where
  "ProcessSyncChanges lib share_handle list_of_changes error_handler =
     ProcessSyncChanges_loop lib share_handle list_of_changes [] error_handler"

section \<open>Vocabulary of the properties\<close>

text \<open>
  The three histograms that measure a deferral (\<^verbatim>\<open>TimeDeferred\<close>,
  \<^verbatim>\<open>TypeTriggeringInit\<close>, \<^verbatim>\<open>DeferredInitTrigger\<close>).
\<close>

fun deferral_sample :: "effect \<Rightarrow> bool" where
  "deferral_sample (UMA (Sync_Startup_TimeDeferred d)) = True"
| "deferral_sample (UMA (Sync_Startup_TypeTriggeringInit t)) = True"
| "deferral_sample (UMA (Sync_Startup_DeferredInitTrigger g)) = True"
| "deferral_sample e = False"

text \<open>
  A signed-in, unmanaged profile whose sync setup has completed, with deferred
  startup switched on and a clock that starts at 1000 and advances with every
  reading.
\<close>

definition example_env :: startup_env where
  "example_env =
     \<lparr> IsManaged = False,
       IsStartSuppressed = False,
       HasSyncSetupCompleted = True,
       GetEffectiveUsername = ''user@example.com'',
       GetAccountIdToUse = ''account'',
       token_service = Some (\<lambda>account. account = ''account''),
       kSyncEnableDeferredStartup = True,
       Now = (\<lambda>k. 1000 + int k) \<rparr>"

definition example_calls :: "(startup_env \<times> call) list" where
  "example_calls =
     [(example_env, Call_TryStart),
      (example_env, Call_OnDataTypeRequestsSyncStartup BOOKMARKS),
      (example_env, Call_TryStart),
      (example_env, Call_OnFallbackStartupTimerExpired)]"

text \<open>
  What \<^verbatim>\<open>ApplyChangesFromSyncModel\<close> stages for a record whose lookup (if it needs
  one) succeeds, and the test for that.
\<close>

definition lookup_succeeds :: "BaseTransaction \<Rightarrow> ChangeRecord \<Rightarrow> bool" where
  "lookup_succeeds trans' it \<longleftrightarrow>
     action it = ChangeRecord_ACTION_DELETE \<or> fst (InitByIdLookup trans' (record_id it)) = INIT_OK"

definition staged_change :: "BaseTransaction \<Rightarrow> ChangeRecord \<Rightarrow> SyncChange" where
  "staged_change trans' it =
     (if action it = ChangeRecord_ACTION_DELETE
      then \<lparr>change_type = ACTION_DELETE,
            sync_data = CreateRemoteData (record_id it) (specifics it)\<rparr>
      else \<lparr>change_type = (if action it = ChangeRecord_ACTION_ADD then ACTION_ADD else ACTION_UPDATE),
            sync_data = CreateRemoteData (record_id it)
                          (GetEntitySpecifics (snd (InitByIdLookup trans' (record_id it))))\<rparr>)"

text \<open>
  The sibling chain \<^verbatim>\<open>GetSyncDataForType\<close> walks: \<open>sibling_chain lib trans' first ids next\<close>
  holds when, starting at id \<open>first\<close>, the traversal visits exactly the ids \<open>ids\<close>,
  each valid and successfully looked up, and would turn to \<open>next\<close> after them.
\<close>

fun sibling_chain :: "sync_library \<Rightarrow> BaseTransaction \<Rightarrow> int \<Rightarrow> int list \<Rightarrow> int \<Rightarrow> bool" where
  "sibling_chain lib trans' first [] next \<longleftrightarrow> first = next"
| "sibling_chain lib trans' first (i # ids) next \<longleftrightarrow>
     first = i \<and> i \<noteq> kInvalidId lib \<and> fst (InitByIdLookup trans' i) = INIT_OK \<and>
     sibling_chain lib trans' (GetSuccessorId (snd (InitByIdLookup trans' i))) ids next"

definition child_data :: "BaseTransaction \<Rightarrow> int \<Rightarrow> SyncData" where
  "child_data trans' i =
     CreateRemoteData (GetId (snd (InitByIdLookup trans' i)))
       (GetEntitySpecifics (snd (InitByIdLookup trans' i)))"

text \<open>
  The error kinds of the specification's taxonomy that the claims name, each with
  the text of the error site of \<^verbatim>\<open>generic_change_processor.cc\<close> it stands for. For
  the encryption diagnostic the text is the whole message, given the type's name;
  for a failed delete lookup it is what \<^verbatim>\<open>LogLookupFailure\<close> puts after the prefix.
  \<open>encryption_kind_of\<close> and \<open>delete_kind_of\<close> are the two tables of the
  specification.
\<close>

datatype encryption_kind =
    EncrMissingKeyNigoriMismatch
  | EncrHaveKeyNigoriMatches
  | EncrMissingKeyNigoriMatches
  | EncrHaveKeyNigoriMismatch

fun encryption_kind_message :: "encryption_kind \<Rightarrow> string \<Rightarrow> string" where
  "encryption_kind_message EncrMissingKeyNigoriMismatch type_str =
     ''Failed to load encrypted entry, missing key and nigori mismatch for '' @ type_str @ ''.''"
| "encryption_kind_message EncrHaveKeyNigoriMatches type_str =
     ''Failed to load encrypted entry, we have the key and the nigori matches (?!) for '' @
     type_str @ ''.''"
| "encryption_kind_message EncrMissingKeyNigoriMatches type_str =
     ''Failed to load encrypted entry, missing key and the nigori matches for '' @ type_str @ ''.''"
| "encryption_kind_message EncrHaveKeyNigoriMismatch type_str =
     ''Failed to load encrypted entry, we have the key(?!) and nigori mismatch for '' @
     type_str @ ''.''"

fun encryption_kind_of :: "bool \<Rightarrow> bool \<Rightarrow> encryption_kind" where
  "encryption_kind_of False False = EncrMissingKeyNigoriMismatch"
| "encryption_kind_of True True = EncrHaveKeyNigoriMatches"
| "encryption_kind_of True False = EncrMissingKeyNigoriMatches"
| "encryption_kind_of False True = EncrHaveKeyNigoriMismatch"

datatype delete_kind =
    DeleteBadEntry
  | DeleteAlreadyDeleted
  | DeleteUndecryptable
  | DeletePrecondition
  | DeleteUnknown

fun delete_kind_text :: "delete_kind \<Rightarrow> string" where
  "delete_kind_text DeleteBadEntry = ''could not find entry matching the lookup criteria.''"
| "delete_kind_text DeleteAlreadyDeleted = ''entry is already deleted.''"
| "delete_kind_text DeleteUndecryptable = ''unable to decrypt''"
| "delete_kind_text DeletePrecondition = ''a precondition was not met for calling init.''"
| "delete_kind_text DeleteUnknown = ''unknown error''"

fun delete_kind_of :: "InitByLookupResult \<Rightarrow> delete_kind" where
  "delete_kind_of INIT_FAILED_ENTRY_NOT_GOOD = DeleteBadEntry"
| "delete_kind_of INIT_FAILED_ENTRY_IS_DEL = DeleteAlreadyDeleted"
| "delete_kind_of INIT_FAILED_DECRYPT_IF_NECESSARY = DeleteUndecryptable"
| "delete_kind_of INIT_FAILED_PRECONDITION = DeletePrecondition"
| "delete_kind_of other = DeleteUnknown"

definition DeleteLocalEmptyTag_message :: "string \<Rightarrow> string" where
  "DeleteLocalEmptyTag_message type_str =
     ''Failed to delete '' @ type_str @ '' node. Local data, empty tag.''"

text \<open>
  A small directory for the examples: one datatype (number 3, named Preferences),
  whose root has id 1 and first child 7; node 7 has successor 8, and no node has id
  8 or 9. The entry with client tag \<open>k\<close> is encrypted and cannot be decrypted; the
  entry with client tag \<open>seven\<close> is node 7. The type is in the encrypted set.
\<close>

definition example_type :: ModelType where
  "example_type = ModelType 3"

definition example_lib :: sync_library where
  "example_lib =
     \<lparr> ModelTypeToString = (\<lambda>t. if t = ModelType 3 then ''Preferences'' else ''Other''),
       ModelTypeToRootTag = (\<lambda>t. if t = ModelType 3 then ''google_chrome_preferences'' else ''other''),
       Int64ToString = (\<lambda>i. if i = 7 then ''7'' else if i = 8 then ''8'' else ''9''),
       kInvalidId = 0 \<rparr>"

definition plain :: "string \<Rightarrow> EntitySpecifics" where
  "plain s = \<lparr>specifics_type = ModelType 3, encrypted = None, payload = s\<rparr>"

definition no_node :: BaseNode where
  "no_node = \<lparr>GetId = 0, GetEntitySpecifics = plain [], GetFirstChildId = 0, GetSuccessorId = 0,
              SPECIFICS = plain []\<rparr>"

definition root_node :: BaseNode where
  "root_node = \<lparr>GetId = 1, GetEntitySpecifics = plain [], GetFirstChildId = 7, GetSuccessorId = 0,
                SPECIFICS = plain []\<rparr>"

definition node7 :: BaseNode where
  "node7 = \<lparr>GetId = 7, GetEntitySpecifics = plain ''s7_now'', GetFirstChildId = 0,
            GetSuccessorId = 8, SPECIFICS = plain ''s7_now''\<rparr>"

definition node_k :: BaseNode where
  "node_k = \<lparr>GetId = 5, GetEntitySpecifics = plain [], GetFirstChildId = 0, GetSuccessorId = 0,
             SPECIFICS = \<lparr>specifics_type = ModelType 3, encrypted = Some ''blob'', payload = []\<rparr>\<rparr>"

definition node_new :: BaseNode where
  "node_new = \<lparr>GetId = 10, GetEntitySpecifics = plain [], GetFirstChildId = 0, GetSuccessorId = 0,
               SPECIFICS = plain []\<rparr>"

definition example_trans :: BaseTransaction where
  "example_trans =
     \<lparr> InitByIdLookup =
         (\<lambda>i. if i = 7 then (INIT_OK, node7) else (INIT_FAILED_ENTRY_NOT_GOOD, no_node)),
       InitByClientTagLookup =
         (\<lambda>t tag. if tag = ''k'' then (INIT_FAILED_DECRYPT_IF_NECESSARY, node_k)
                  else if tag = ''seven'' then (INIT_OK, node7)
                  else if tag = [] then (INIT_FAILED_PRECONDITION, no_node)
                  else (INIT_FAILED_ENTRY_NOT_GOOD, no_node)),
       InitByTagLookup =
         (\<lambda>tag. if tag = ''google_chrome_preferences'' then (INIT_OK, root_node)
                else (INIT_FAILED_ENTRY_NOT_GOOD, no_node)),
       InitUniqueByCreation =
         (\<lambda>t parent tag. if tag = [] then (INIT_FAILED_EMPTY_TAG, no_node)
                         else (INIT_SUCCESS, node_new)),
       GetEncryptedTypes = {ModelType 3},
       CanDecrypt = (\<lambda>blob. False) \<rparr>"

definition example_share :: UserShare where
  "example_share = (\<lambda>calls. example_trans)"

text \<open>
  A running processor with an empty staging buffer: with a live local service that
  accepts every list, with its local service destroyed, and with a live local
  service that answers every list with an error.
\<close>

definition example_processor :: GenericChangeProcessor where
  "example_processor =
     \<lparr> running = True, local_service = Some (\<lambda>changes. None), syncer_changes = [],
       error_handler_calls = [], delivered = [] \<rparr>"

definition orphaned_processor :: GenericChangeProcessor where
  "orphaned_processor = example_processor\<lparr>local_service := None\<rparr>"

definition refusing_processor :: GenericChangeProcessor where
  "refusing_processor =
     example_processor
       \<lparr>local_service :=
          Some (\<lambda>changes. Some \<lparr>message = ''refused'', error_type = ModelType 3\<rparr>)\<rparr>"

definition delete9 :: ChangeRecord where
  "delete9 = \<lparr>record_id = 9, action = ChangeRecord_ACTION_DELETE, specifics = plain ''sdel''\<rparr>"

definition add7 :: ChangeRecord where
  "add7 = \<lparr>record_id = 7, action = ChangeRecord_ACTION_ADD, specifics = plain ''s7''\<rparr>"

definition add8 :: ChangeRecord where
  "add8 = \<lparr>record_id = 8, action = ChangeRecord_ACTION_ADD, specifics = plain ''s8''\<rparr>"

text \<open>Outbound changes for the examples.\<close>

definition delete_local_untagged :: SyncChange where
  "delete_local_untagged =
     \<lparr>change_type = ACTION_DELETE, sync_data = LocalData [] ''title'' (plain ''x'')\<rparr>"

definition delete_local_k :: SyncChange where
  "delete_local_k =
     \<lparr>change_type = ACTION_DELETE, sync_data = LocalData ''k'' ''title'' (plain ''x'')\<rparr>"

definition delete_remote7 :: SyncChange where
  "delete_remote7 = \<lparr>change_type = ACTION_DELETE, sync_data = RemoteData 7 (plain ''x'')\<rparr>"

definition delete_remote8 :: SyncChange where
  "delete_remote8 = \<lparr>change_type = ACTION_DELETE, sync_data = RemoteData 8 (plain ''x'')\<rparr>"

definition add_local_new :: SyncChange where
  "add_local_new =
     \<lparr>change_type = ACTION_ADD, sync_data = LocalData ''new'' ''hello'' (plain ''x'')\<rparr>"

definition update_local_k :: SyncChange where
  "update_local_k =
     \<lparr>change_type = ACTION_UPDATE, sync_data = LocalData ''k'' ''title'' (plain ''x'')\<rparr>"

definition update_local_seven :: SyncChange where
  "update_local_seven =
     \<lparr>change_type = ACTION_UPDATE, sync_data = LocalData ''seven'' ''title'' (plain ''y'')\<rparr>"

section \<open>Properties of the startup controller\<close>

subsection \<open>What one call can do to the two timestamps\<close>

lemma StartUp_start_up_time_fixed:
  "\<not> is_null (start_up_time c) \<Longrightarrow> start_up_time (snd (StartUp env opt c)) = start_up_time c"
  by (simp add: StartUp_def Time_Now_def perform_def Let_def split: prod.splits)

lemma StartUp_start_up_time_first:
  "is_null (start_up_time c) \<Longrightarrow> start_up_time (snd (StartUp env opt c)) = Now env (now_calls c)"
  by (simp add: StartUp_def Time_Now_def perform_def Let_def split: prod.splits)

lemma TryStart_start_up_time_fixed:
  "\<not> is_null (start_up_time c) \<Longrightarrow> start_up_time (snd (TryStart env c)) = start_up_time c"
  using StartUp_start_up_time_fixed[of "perform (UMA (Sync_RefreshTokenAvailable True)) c" env]
  by (simp add: TryStart_def Let_def perform_def split: option.splits)

lemma do_call_start_up_time_fixed:
  assumes "\<not> is_null (start_up_time c)"
  shows "start_up_time (do_call env k c) = start_up_time c"
proof (cases k)
  case Call_TryStart
  then show ?thesis using assms TryStart_start_up_time_fixed by simp
next
  case Call_OnFallbackStartupTimerExpired
  then show ?thesis using assms TryStart_start_up_time_fixed[of _ env]
    by (simp add: OnFallbackStartupTimerExpired_def Time_Now_def perform_def Let_def)
next
  case (Call_OnDataTypeRequestsSyncStartup t)
  then show ?thesis using assms TryStart_start_up_time_fixed[of _ env]
    by (simp add: OnDataTypeRequestsSyncStartup_def Time_Now_def perform_def Let_def)
qed (simp_all add: set_setup_in_progress_def OverrideFallbackTimeoutForTest_def)

lemma run_calls_start_up_time_fixed:
  "\<not> is_null (start_up_time c) \<Longrightarrow> start_up_time (run_calls ks c) = start_up_time c"
proof (induction ks arbitrary: c)
  case Nil
  then show ?case by simp
next
  case (Cons a ks)
  obtain env k where a: "a = (env, k)" by (cases a)
  have "start_up_time (do_call env k c) = start_up_time c"
    using Cons.prems by (rule do_call_start_up_time_fixed)
  then show ?case using Cons a by simp
qed

lemma StartUp_started:
  "\<not> is_null (start_backend_time c) \<Longrightarrow>
     start_backend_time (snd (StartUp env opt c)) = start_backend_time c \<and>
     backend_runs (snd (StartUp env opt c)) = backend_runs c"
  by (simp add: StartUp_def Time_Now_def perform_def Let_def backend_runs_def split: prod.splits)

lemma StartUp_not_started:
  "is_null (start_backend_time c) \<Longrightarrow> \<forall>n. Now env n \<noteq> 0 \<Longrightarrow>
     backend_runs (snd (StartUp env opt c)) =
       backend_runs c + (if is_null (start_backend_time (snd (StartUp env opt c))) then 0 else 1)"
  by (simp add: StartUp_def Time_Now_def perform_def Let_def backend_runs_def is_null_def
      split: prod.splits)

lemma TryStart_started:
  "\<not> is_null (start_backend_time c) \<Longrightarrow>
     start_backend_time (snd (TryStart env c)) = start_backend_time c \<and>
     backend_runs (snd (TryStart env c)) = backend_runs c"
  using StartUp_started[of "perform (UMA (Sync_RefreshTokenAvailable True)) c" env]
  by (simp add: TryStart_def Let_def perform_def backend_runs_def split: option.splits)

lemma TryStart_not_started:
  "is_null (start_backend_time c) \<Longrightarrow> \<forall>n. Now env n \<noteq> 0 \<Longrightarrow>
     backend_runs (snd (TryStart env c)) =
       backend_runs c + (if is_null (start_backend_time (snd (TryStart env c))) then 0 else 1)"
  using StartUp_not_started[of "perform (UMA (Sync_RefreshTokenAvailable True)) c" env]
  by (simp add: TryStart_def Let_def perform_def backend_runs_def split: option.splits)

lemma do_call_started:
  assumes "\<not> is_null (start_backend_time c)"
  shows "start_backend_time (do_call env k c) = start_backend_time c \<and>
         backend_runs (do_call env k c) = backend_runs c"
  using assms TryStart_started[of c env]
  by (cases k)
     (simp_all add: OnFallbackStartupTimerExpired_def OnDataTypeRequestsSyncStartup_def
        set_setup_in_progress_def OverrideFallbackTimeoutForTest_def backend_runs_def)

lemma do_call_not_started:
  assumes "is_null (start_backend_time c)" and "\<forall>n. Now env n \<noteq> 0"
  shows "backend_runs (do_call env k c) =
           backend_runs c + (if is_null (start_backend_time (do_call env k c)) then 0 else 1)"
proof (cases k)
  case Call_TryStart
  then show ?thesis using assms TryStart_not_started by simp
next
  case Call_OnFallbackStartupTimerExpired
  then show ?thesis using assms TryStart_not_started[of _ env]
    by (simp add: OnFallbackStartupTimerExpired_def Time_Now_def perform_def Let_def backend_runs_def)
next
  case (Call_OnDataTypeRequestsSyncStartup t)
  then show ?thesis using assms TryStart_not_started[of _ env]
    by (simp add: OnDataTypeRequestsSyncStartup_def Time_Now_def perform_def Let_def backend_runs_def)
qed (simp_all add: assms(1) set_setup_in_progress_def OverrideFallbackTimeoutForTest_def
       backend_runs_def)

lemma run_calls_started:
  "\<not> is_null (start_backend_time c) \<Longrightarrow>
     start_backend_time (run_calls ks c) = start_backend_time c \<and>
     backend_runs (run_calls ks c) = backend_runs c"
proof (induction ks arbitrary: c)
  case Nil
  then show ?case by simp
next
  case (Cons a ks)
  obtain env k where a: "a = (env, k)" by (cases a)
  have "start_backend_time (do_call env k c) = start_backend_time c \<and>
        backend_runs (do_call env k c) = backend_runs c"
    using Cons.prems by (rule do_call_started)
  then show ?case using Cons a by simp
qed

lemma run_calls_not_started:
  "is_null (start_backend_time c) \<Longrightarrow> \<forall>(env, k) \<in> set ks. \<forall>n. Now env n \<noteq> 0 \<Longrightarrow>
     backend_runs (run_calls ks c) =
       backend_runs c + (if is_null (start_backend_time (run_calls ks c)) then 0 else 1)"
proof (induction ks arbitrary: c)
  case Nil
  then show ?case by simp
next
  case (Cons a ks)
  obtain env k where a: "a = (env, k)" by (cases a)
  let ?c = "do_call env k c"
  have clock: "\<forall>n. Now env n \<noteq> 0" and rest: "\<forall>(env, k) \<in> set ks. \<forall>n. Now env n \<noteq> 0"
    using Cons.prems(2) a by auto
  have step: "backend_runs ?c = backend_runs c + (if is_null (start_backend_time ?c) then 0 else 1)"
    using Cons.prems(1) clock by (rule do_call_not_started)
  show ?case
  proof (cases "is_null (start_backend_time ?c)")
    case True
    then show ?thesis using Cons.IH[OF True rest] step a by simp
  next
    case False
    then show ?thesis using run_calls_started[OF False, of ks] step a by simp
  qed
qed

lemma StartUp_backend_effect:
  assumes "start_backend_time (snd (StartUp env opt c)) \<noteq> start_backend_time c"
  shows "(\<exists>n. start_backend_time (snd (StartUp env opt c)) = Now env n) \<and>
         effects (snd (StartUp env opt c)) = effects c @ [StartBackend_Run]"
  using assms
  by (auto simp add: StartUp_def Time_Now_def perform_def Let_def split: prod.splits if_splits)

lemma TryStart_backend_effect:
  assumes "start_backend_time (snd (TryStart env c)) \<noteq> start_backend_time c"
  shows "(\<exists>n. start_backend_time (snd (TryStart env c)) = Now env n) \<and>
         (\<exists>pre. effects (snd (TryStart env c)) = effects c @ pre @ [StartBackend_Run])"
proof -
  let ?c1 = "perform (UMA (Sync_RefreshTokenAvailable True)) c"
  have c1: "start_backend_time ?c1 = start_backend_time c"
    "effects ?c1 = effects c @ [UMA (Sync_RefreshTokenAvailable True)]"
    by (simp_all add: perform_def)
  obtain opt where eq: "TryStart env c = StartUp env opt ?c1"
    using assms c1(1) by (auto simp add: TryStart_def Let_def split: option.splits if_splits)
  have "start_backend_time (snd (StartUp env opt ?c1)) \<noteq> start_backend_time ?c1"
    using assms eq c1 by simp
  from StartUp_backend_effect[OF this] show ?thesis
    unfolding eq c1 by auto
qed

lemma do_call_backend_effect:
  assumes "start_backend_time (do_call env k c) \<noteq> start_backend_time c"
  shows "(\<exists>n. start_backend_time (do_call env k c) = Now env n) \<and>
         (\<exists>pre. effects (do_call env k c) = effects c @ pre @ [StartBackend_Run])"
proof (cases k)
  case Call_TryStart
  then show ?thesis using assms TryStart_backend_effect[of env c] by simp
next
  case (Call_set_setup_in_progress b)
  then show ?thesis using assms by (simp add: set_setup_in_progress_def)
next
  case (Call_OverrideFallbackTimeoutForTest t)
  then show ?thesis using assms by (simp add: OverrideFallbackTimeoutForTest_def)
next
  case Call_OnFallbackStartupTimerExpired
  show ?thesis
  proof (cases "is_null (start_backend_time c)")
    case False
    then show ?thesis using assms Call_OnFallbackStartupTimerExpired
      by (simp add: OnFallbackStartupTimerExpired_def)
  next
    case True
    define c4 where "c4 = (perform (UMA (Sync_Startup_DeferredInitTrigger TRIGGER_FALLBACK_TIMER))
        (perform (UMA (Sync_Startup_TimeDeferred (Now env (now_calls c) - start_up_time c)))
          (c\<lparr>now_calls := Suc (now_calls c)\<rparr>)))\<lparr>received_start_request := True\<rparr>"
    have eq: "do_call env k c = snd (TryStart env c4)"
      using True Call_OnFallbackStartupTimerExpired
      by (simp add: OnFallbackStartupTimerExpired_def Time_Now_def Let_def c4_def)
    have c4: "start_backend_time c4 = start_backend_time c"
      "effects c4 = effects c @ [UMA (Sync_Startup_TimeDeferred (Now env (now_calls c) - start_up_time c)),
         UMA (Sync_Startup_DeferredInitTrigger TRIGGER_FALLBACK_TIMER)]"
      by (simp_all add: c4_def perform_def)
    have "start_backend_time (snd (TryStart env c4)) \<noteq> start_backend_time c4"
      using assms eq c4 by simp
    from TryStart_backend_effect[OF this] show ?thesis
      unfolding eq c4 by auto
  qed
next
  case (Call_OnDataTypeRequestsSyncStartup t)
  show ?thesis
  proof (cases "kSyncEnableDeferredStartup env \<and> is_null (start_backend_time c)")
    case False
    then show ?thesis using assms Call_OnDataTypeRequestsSyncStartup
      by (auto simp add: OnDataTypeRequestsSyncStartup_def split: if_splits)
  next
    case True
    obtain c2 where eq: "do_call env k c = snd (TryStart env c2)"
      and sbt: "start_backend_time c2 = start_backend_time c"
      and eff: "\<exists>samples. effects c2 = effects c @ samples"
      using True Call_OnDataTypeRequestsSyncStartup
      by (cases "is_null (start_up_time c)")
         (simp_all add: OnDataTypeRequestsSyncStartup_def Time_Now_def Let_def perform_def)
    obtain samples where samples: "effects c2 = effects c @ samples" using eff by blast
    have "start_backend_time (snd (TryStart env c2)) \<noteq> start_backend_time c2"
      using assms eq sbt by simp
    from TryStart_backend_effect[OF this] show ?thesis
      unfolding eq samples by auto
  qed
qed

lemma TryStart_start_up_time_change:
  assumes "start_up_time (snd (TryStart env c)) \<noteq> start_up_time c"
  shows "\<exists>opt. TryStart env c = StartUp env opt (perform (UMA (Sync_RefreshTokenAvailable True)) c)"
proof -
  have "start_up_time (perform (UMA (Sync_RefreshTokenAvailable True)) c) = start_up_time c"
    by (simp add: perform_def)
  then show ?thesis
    using assms by (auto simp add: TryStart_def Let_def split: option.splits if_splits)
qed

lemma start_up_time_change_through_TryStart:
  assumes "r = snd (TryStart env c2)"
    and "start_up_time c2 = start_up_time c"
    and "start_up_time r \<noteq> start_up_time c"
    and "is_null (start_up_time c)"
  shows "\<exists>opt c'. start_up_time c' = start_up_time c \<and> r = snd (StartUp env opt c') \<and>
                  start_up_time r = Now env (now_calls c')"
proof -
  let ?c' = "perform (UMA (Sync_RefreshTokenAvailable True)) c2"
  have "start_up_time (snd (TryStart env c2)) \<noteq> start_up_time c2"
    using assms(1,2,3) by simp
  then obtain opt where opt: "TryStart env c2 = StartUp env opt ?c'"
    using TryStart_start_up_time_change by blast
  have same: "start_up_time ?c' = start_up_time c"
    using assms(2) by (simp add: perform_def)
  have "start_up_time (snd (StartUp env opt ?c')) = Now env (now_calls ?c')"
    using same assms(4) by (simp add: StartUp_start_up_time_first)
  then show ?thesis
    using opt same assms(1) by auto
qed

lemma do_call_start_up_time_change:
  assumes "start_up_time (do_call env k c) \<noteq> start_up_time c"
  shows "is_null (start_up_time c) \<and>
         (\<exists>opt c'. start_up_time c' = start_up_time c \<and> do_call env k c = snd (StartUp env opt c') \<and>
                    start_up_time (do_call env k c) = Now env (now_calls c'))"
proof -
  have null: "is_null (start_up_time c)"
    using assms do_call_start_up_time_fixed[of c env k] by blast
  have "\<exists>c2. do_call env k c = snd (TryStart env c2) \<and> start_up_time c2 = start_up_time c"
  proof (cases k)
    case Call_TryStart
    then show ?thesis by auto
  next
    case (Call_set_setup_in_progress b)
    then show ?thesis using assms by (simp add: set_setup_in_progress_def)
  next
    case (Call_OverrideFallbackTimeoutForTest t)
    then show ?thesis using assms by (simp add: OverrideFallbackTimeoutForTest_def)
  next
    case Call_OnFallbackStartupTimerExpired
    show ?thesis
    proof (cases "is_null (start_backend_time c)")
      case False
      then show ?thesis using assms Call_OnFallbackStartupTimerExpired
        by (simp add: OnFallbackStartupTimerExpired_def)
    next
      case True
      then show ?thesis using Call_OnFallbackStartupTimerExpired
        by (simp add: OnFallbackStartupTimerExpired_def Time_Now_def Let_def perform_def)
           (rule exI, rule conjI, rule refl, simp)
    qed
  next
    case (Call_OnDataTypeRequestsSyncStartup t)
    show ?thesis
    proof (cases "kSyncEnableDeferredStartup env \<and> is_null (start_backend_time c)")
      case False
      then show ?thesis using assms Call_OnDataTypeRequestsSyncStartup
        by (auto simp add: OnDataTypeRequestsSyncStartup_def split: if_splits)
    next
      case True
      then show ?thesis using Call_OnDataTypeRequestsSyncStartup null
        by (simp add: OnDataTypeRequestsSyncStartup_def Time_Now_def Let_def perform_def)
           (rule exI, rule conjI, rule refl, simp)
    qed
  qed
  then obtain c2 where "do_call env k c = snd (TryStart env c2)"
    and "start_up_time c2 = start_up_time c" by blast
  from start_up_time_change_through_TryStart[OF this assms null] null show ?thesis by blast
qed

subsection \<open>What \<open>TryStart\<close> leaves alone\<close>

lemma StartUp_received:
  "received_start_request (snd (StartUp env opt c)) = received_start_request c"
  by (simp add: StartUp_def Time_Now_def perform_def Let_def split: prod.splits)

lemma StartUp_deferral_samples:
  "filter deferral_sample (effects (snd (StartUp env opt c))) = filter deferral_sample (effects c)"
  by (simp add: StartUp_def Time_Now_def perform_def Let_def split: prod.splits)

lemma TryStart_received:
  "received_start_request (snd (TryStart env c)) = received_start_request c"
  using StartUp_received[of env _ "perform (UMA (Sync_RefreshTokenAvailable True)) c"]
  by (simp add: TryStart_def Let_def perform_def split: option.splits)

lemma TryStart_deferral_samples:
  "filter deferral_sample (effects (snd (TryStart env c))) = filter deferral_sample (effects c)"
  using StartUp_deferral_samples[of env _ "perform (UMA (Sync_RefreshTokenAvailable True)) c"]
  by (simp add: TryStart_def Let_def perform_def split: option.splits)

lemma StartUp_immediate_returns_true: "fst (StartUp env STARTUP_IMMEDIATE c)"
  by (simp add: StartUp_def Let_def split: prod.splits)

subsection \<open>The claims about the startup controller\<close>

text \<open>
  C8. A \<open>TryStart\<close> call made while \<open>IsManaged\<close> holds returns false and changes
  nothing of the controller: no member, no clock reading, no effect. In particular
  \<open>start_backend_time\<close> is what it was (unset if it was unset) and the
  \<open>start_backend\<close> closure is not run.
\<close>

theorem TryStart_managed:
  assumes "IsManaged env"
  shows "TryStart env c = (False, c) \<and>
         start_backend_time (snd (TryStart env c)) = start_backend_time c \<and>
         backend_runs (snd (TryStart env c)) = backend_runs c"
  using assms by (simp add: TryStart_def)

theorem TryStart_managed_witness:
  "TryStart (example_env\<lparr>IsManaged := True\<rparr>) (StartupController AUTO_START) =
     (False, StartupController AUTO_START) \<and>
   is_null (start_backend_time
     (snd (TryStart (example_env\<lparr>IsManaged := True\<rparr>) (StartupController AUTO_START)))) \<and>
   backend_runs (snd (TryStart (example_env\<lparr>IsManaged := True\<rparr>) (StartupController AUTO_START))) = 0"
proof -
  have managed: "IsManaged (example_env\<lparr>IsManaged := True\<rparr>)" by simp
  from TryStart_managed[OF managed, of "StartupController AUTO_START"] show ?thesis
    by (simp add: StartupController_def is_null_def backend_runs_def)
qed

text \<open>
  C5. A \<open>TryStart\<close> call that passes its five pre-checks records the
  \<open>RefreshTokenAvailable\<close> sample and then decides: with sync setup completed it is
  \<open>StartUp\<close> deferred when no start request has been received and \<open>StartUp\<close>
  immediate when one has; with setup not completed it is \<open>StartUp\<close> immediate when
  setup is in progress or auto-start is enabled, and otherwise it returns false
  with nothing done but the sample. (\<open>StartUp\<close> immediate always returns true, so
  the last case is not a \<open>StartUp\<close> immediate.)
\<close>

theorem TryStart_decision:
  assumes "\<not> IsManaged env" and "\<not> IsStartSuppressed env" and "GetEffectiveUsername env \<noteq> []"
    and "token_service env = Some RefreshTokenIsAvailable"
    and "RefreshTokenIsAvailable (GetAccountIdToUse env)"
  shows
    "(HasSyncSetupCompleted env \<and> \<not> received_start_request c \<longrightarrow>
        TryStart env c =
          StartUp env STARTUP_BACKEND_DEFERRED (perform (UMA (Sync_RefreshTokenAvailable True)) c)) \<and>
     (HasSyncSetupCompleted env \<and> received_start_request c \<longrightarrow>
        TryStart env c =
          StartUp env STARTUP_IMMEDIATE (perform (UMA (Sync_RefreshTokenAvailable True)) c)) \<and>
     (\<not> HasSyncSetupCompleted env \<and> (setup_in_progress c \<or> auto_start_enabled c) \<longrightarrow>
        TryStart env c =
          StartUp env STARTUP_IMMEDIATE (perform (UMA (Sync_RefreshTokenAvailable True)) c)) \<and>
     (\<not> HasSyncSetupCompleted env \<and> \<not> (setup_in_progress c \<or> auto_start_enabled c) \<longrightarrow>
        TryStart env c = (False, perform (UMA (Sync_RefreshTokenAvailable True)) c) \<and>
        TryStart env c \<noteq>
          StartUp env STARTUP_IMMEDIATE (perform (UMA (Sync_RefreshTokenAvailable True)) c))"
proof -
  let ?c1 = "perform (UMA (Sync_RefreshTokenAvailable True)) c"
  have flags: "received_start_request ?c1 = received_start_request c"
    "setup_in_progress ?c1 = setup_in_progress c"
    "auto_start_enabled ?c1 = auto_start_enabled c"
    by (simp_all add: perform_def)
  have immediate: "(False, ?c1) \<noteq> StartUp env STARTUP_IMMEDIATE ?c1"
    using StartUp_immediate_returns_true[of env ?c1] by (cases "StartUp env STARTUP_IMMEDIATE ?c1") auto
  show ?thesis
    using assms flags immediate by (simp add: TryStart_def Let_def)
qed

theorem TryStart_decision_witness:
  "TryStart example_env (StartupController MANUAL_START) =
     StartUp example_env STARTUP_BACKEND_DEFERRED
       (perform (UMA (Sync_RefreshTokenAvailable True)) (StartupController MANUAL_START)) \<and>
   TryStart example_env ((StartupController MANUAL_START)\<lparr>received_start_request := True\<rparr>) =
     StartUp example_env STARTUP_IMMEDIATE
       (perform (UMA (Sync_RefreshTokenAvailable True))
          ((StartupController MANUAL_START)\<lparr>received_start_request := True\<rparr>)) \<and>
   TryStart (example_env\<lparr>HasSyncSetupCompleted := False\<rparr>) (StartupController AUTO_START) =
     StartUp (example_env\<lparr>HasSyncSetupCompleted := False\<rparr>) STARTUP_IMMEDIATE
       (perform (UMA (Sync_RefreshTokenAvailable True)) (StartupController AUTO_START)) \<and>
   TryStart (example_env\<lparr>HasSyncSetupCompleted := False\<rparr>) (StartupController MANUAL_START) =
     (False, perform (UMA (Sync_RefreshTokenAvailable True)) (StartupController MANUAL_START))"
proof -
  let ?f = "\<lambda>account. account = ''account''"
  let ?env' = "example_env\<lparr>HasSyncSetupCompleted := False\<rparr>"
  have pre: "\<not> IsManaged example_env" "\<not> IsStartSuppressed example_env"
    "GetEffectiveUsername example_env \<noteq> []" "token_service example_env = Some ?f"
    "?f (GetAccountIdToUse example_env)"
    by (simp_all add: example_env_def)
  have pre': "\<not> IsManaged ?env'" "\<not> IsStartSuppressed ?env'"
    "GetEffectiveUsername ?env' \<noteq> []" "token_service ?env' = Some ?f"
    "?f (GetAccountIdToUse ?env')"
    by (simp_all add: example_env_def)
  have completed: "HasSyncSetupCompleted example_env" "\<not> HasSyncSetupCompleted ?env'"
    by (simp_all add: example_env_def)
  show ?thesis
    using TryStart_decision[OF pre, of "StartupController MANUAL_START"]
      TryStart_decision[OF pre, of "(StartupController MANUAL_START)\<lparr>received_start_request := True\<rparr>"]
      TryStart_decision[OF pre', of "StartupController AUTO_START"]
      TryStart_decision[OF pre', of "StartupController MANUAL_START"]
      completed
    by (simp add: StartupController_def)
qed

text \<open>
  C10. \<open>OnDataTypeRequestsSyncStartup\<close>, called with deferred startup enabled
  and the backend not started, is \<open>TryStart\<close> on the controller with
  \<open>received_start_request\<close> set, whether or not \<open>start_up_time\<close> has been set:
  when it has, the three samples \<open>TimeDeferred\<close>, \<open>TypeTriggeringInit\<close> and
  \<open>DeferredInitTrigger\<close> are recorded first; when it has never been set, the
  controller goes to \<open>TryStart\<close> as it is and the call records none of the three
  samples. The flag is set afterwards in both cases.
\<close>

theorem OnDataTypeRequestsSyncStartup_before_first_start:
  assumes "kSyncEnableDeferredStartup env"
    and "is_null (start_backend_time c)"
  shows "OnDataTypeRequestsSyncStartup env type c =
           snd (TryStart env
                  ((if is_null (start_up_time c) then c
                    else perform (UMA (Sync_Startup_DeferredInitTrigger TRIGGER_DATA_TYPE_REQUEST))
                           (perform (UMA (Sync_Startup_TypeTriggeringInit type))
                              (perform (UMA (Sync_Startup_TimeDeferred
                                               (Now env (now_calls c) - start_up_time c)))
                                 (c\<lparr>now_calls := Suc (now_calls c)\<rparr>))))
                   \<lparr>received_start_request := True\<rparr>)) \<and>
         received_start_request (OnDataTypeRequestsSyncStartup env type c) \<and>
         (is_null (start_up_time c) \<longrightarrow>
            OnDataTypeRequestsSyncStartup env type c =
              snd (TryStart env (c\<lparr>received_start_request := True\<rparr>)) \<and>
            filter deferral_sample (effects (OnDataTypeRequestsSyncStartup env type c)) =
              filter deferral_sample (effects c)) \<and>
         (\<not> is_null (start_up_time c) \<longrightarrow>
            filter deferral_sample (effects (OnDataTypeRequestsSyncStartup env type c)) =
              filter deferral_sample (effects c) @
                [UMA (Sync_Startup_TimeDeferred (Now env (now_calls c) - start_up_time c)),
                 UMA (Sync_Startup_TypeTriggeringInit type),
                 UMA (Sync_Startup_DeferredInitTrigger TRIGGER_DATA_TYPE_REQUEST)])"
proof -
  let ?c1 = "if is_null (start_up_time c) then c
             else perform (UMA (Sync_Startup_DeferredInitTrigger TRIGGER_DATA_TYPE_REQUEST))
                    (perform (UMA (Sync_Startup_TypeTriggeringInit type))
                       (perform (UMA (Sync_Startup_TimeDeferred
                                        (Now env (now_calls c) - start_up_time c)))
                          (c\<lparr>now_calls := Suc (now_calls c)\<rparr>)))"
  let ?c2 = "?c1\<lparr>received_start_request := True\<rparr>"
  have eq: "OnDataTypeRequestsSyncStartup env type c = snd (TryStart env ?c2)"
    using assms by (simp add: OnDataTypeRequestsSyncStartup_def Time_Now_def Let_def)
  have flag: "received_start_request (snd (TryStart env ?c2))"
    using TryStart_received[of env ?c2] by simp
  have samples: "filter deferral_sample (effects (snd (TryStart env ?c2))) =
                   filter deferral_sample (effects ?c2)"
    by (rule TryStart_deferral_samples)
  have unset: "is_null (start_up_time c) \<Longrightarrow> ?c2 = c\<lparr>received_start_request := True\<rparr>"
    by simp
  have set: "\<not> is_null (start_up_time c) \<Longrightarrow>
      filter deferral_sample (effects ?c2) =
        filter deferral_sample (effects c) @
          [UMA (Sync_Startup_TimeDeferred (Now env (now_calls c) - start_up_time c)),
           UMA (Sync_Startup_TypeTriggeringInit type),
           UMA (Sync_Startup_DeferredInitTrigger TRIGGER_DATA_TYPE_REQUEST)]"
    by (simp add: perform_def)
  show ?thesis
    unfolding eq samples using flag unset set by simp
qed

theorem OnDataTypeRequestsSyncStartup_before_first_start_witness:
  "OnDataTypeRequestsSyncStartup example_env BOOKMARKS (StartupController MANUAL_START) =
     \<lparr> received_start_request = True, setup_in_progress = False, auto_start_enabled = False,
       start_up_time = 1000, start_backend_time = 1001, fallback_timeout = 10, now_calls = 2,
       effects = [UMA (Sync_RefreshTokenAvailable True), StartBackend_Run] \<rparr> \<and>
   filter deferral_sample
     (effects (OnDataTypeRequestsSyncStartup example_env BOOKMARKS (StartupController MANUAL_START))) = [] \<and>
   filter deferral_sample
     (effects (OnDataTypeRequestsSyncStartup example_env BOOKMARKS
                 (snd (TryStart example_env (StartupController MANUAL_START))))) =
     [UMA (Sync_Startup_TimeDeferred 1),
      UMA (Sync_Startup_TypeTriggeringInit BOOKMARKS),
      UMA (Sync_Startup_DeferredInitTrigger TRIGGER_DATA_TYPE_REQUEST)]"
proof -
  let ?c0 = "StartupController MANUAL_START"
  let ?c1 = "snd (TryStart example_env ?c0)"
  have switch: "kSyncEnableDeferredStartup example_env"
    by (simp add: example_env_def)
  have fresh: "is_null (start_backend_time ?c0)" "is_null (start_up_time ?c0)"
    by (simp_all add: StartupController_def is_null_def)
  have deferred: "?c1 =
     \<lparr> received_start_request = False, setup_in_progress = False, auto_start_enabled = False,
       start_up_time = 1000, start_backend_time = 0, fallback_timeout = 10, now_calls = 1,
       effects = [UMA (Sync_RefreshTokenAvailable True), PostDelayedTask 10] \<rparr>"
    by (simp add: TryStart_def StartUp_def Time_Now_def perform_def Let_def is_null_def
        example_env_def StartupController_def kDeferredInitFallbackSeconds_def)
  have waiting: "is_null (start_backend_time ?c1)" "\<not> is_null (start_up_time ?c1)"
    "now_calls ?c1 = 1" "start_up_time ?c1 = 1000"
    "filter deferral_sample (effects ?c1) = []"
    unfolding deferred by (simp_all add: is_null_def)
  have run: "snd (TryStart example_env (?c0\<lparr>received_start_request := True\<rparr>)) =
     \<lparr> received_start_request = True, setup_in_progress = False, auto_start_enabled = False,
       start_up_time = 1000, start_backend_time = 1001, fallback_timeout = 10, now_calls = 2,
       effects = [UMA (Sync_RefreshTokenAvailable True), StartBackend_Run] \<rparr>"
    by (simp add: TryStart_def StartUp_def Time_Now_def perform_def Let_def is_null_def
        example_env_def StartupController_def kDeferredInitFallbackSeconds_def)
  have first: "OnDataTypeRequestsSyncStartup example_env BOOKMARKS ?c0 =
      snd (TryStart example_env (?c0\<lparr>received_start_request := True\<rparr>))"
    using OnDataTypeRequestsSyncStartup_before_first_start[OF switch fresh(1), of BOOKMARKS] fresh(2)
    by blast
  have later: "filter deferral_sample
      (effects (OnDataTypeRequestsSyncStartup example_env BOOKMARKS ?c1)) =
      filter deferral_sample (effects ?c1) @
        [UMA (Sync_Startup_TimeDeferred (Now example_env (now_calls ?c1) - start_up_time ?c1)),
         UMA (Sync_Startup_TypeTriggeringInit BOOKMARKS),
         UMA (Sync_Startup_DeferredInitTrigger TRIGGER_DATA_TYPE_REQUEST)]"
    using OnDataTypeRequestsSyncStartup_before_first_start[OF switch waiting(1), of BOOKMARKS]
      waiting(2)
    by blast
  have now: "Now example_env 1 = 1001"
    by (simp add: example_env_def)
  show ?thesis
    unfolding first run later waiting now by simp
qed

text \<open>
  C7. Within one lifetime of the controller, that is from its construction or a
  \<open>Reset\<close> (both leave the two timestamps null) through any sequence of calls
  that are not \<open>Reset\<close>, and for a clock that never reads the null time:
  the first \<open>StartUp\<close> assigns \<open>start_up_time\<close> a clock reading, and once it
  is not null neither \<open>StartUp\<close> nor any sequence of calls changes it;
  once \<open>start_backend_time\<close> is not null no sequence of calls changes it or runs
  the \<open>start_backend\<close> closure; starting from a null \<open>start_backend_time\<close> the
  closure is run once if the timestamp ends up set and not at all otherwise; and
  a call that changes \<open>start_backend_time\<close> sets it to a clock reading and ends
  with the run of the closure. Nothing but \<open>StartUp\<close> assigns \<open>start_up_time\<close>:
  the two setters never touch it, and a call that changes it found it null and is
  a \<open>StartUp\<close> on a controller with that null timestamp, which assigns it the
  clock reading.
\<close>

theorem timestamps_set_once_per_lifetime:
  "is_null (start_up_time (StartupController start_behavior)) \<and>
   is_null (start_backend_time (StartupController start_behavior)) \<and>
   is_null (start_up_time (Reset c)) \<and>
   is_null (start_backend_time (Reset c)) \<and>
   (is_null (start_up_time c) \<longrightarrow>
      start_up_time (snd (StartUp env opt c)) = Now env (now_calls c)) \<and>
   (\<not> is_null (start_up_time c) \<longrightarrow>
      start_up_time (snd (StartUp env opt c)) = start_up_time c \<and>
      start_up_time (run_calls ks c) = start_up_time c) \<and>
   (\<not> is_null (start_backend_time c) \<longrightarrow>
      start_backend_time (run_calls ks c) = start_backend_time c \<and>
      backend_runs (run_calls ks c) = backend_runs c) \<and>
   (is_null (start_backend_time c) \<and> (\<forall>(env, k) \<in> set ks. \<forall>n. Now env n \<noteq> 0) \<longrightarrow>
      backend_runs (run_calls ks c) =
        backend_runs c + (if is_null (start_backend_time (run_calls ks c)) then 0 else 1)) \<and>
   (start_backend_time (do_call env k c) \<noteq> start_backend_time c \<longrightarrow>
      (\<exists>n. start_backend_time (do_call env k c) = Now env n) \<and>
      (\<exists>pre. effects (do_call env k c) = effects c @ pre @ [StartBackend_Run])) \<and>
   start_up_time (set_setup_in_progress in_progress c) = start_up_time c \<and>
   start_up_time (OverrideFallbackTimeoutForTest timeout c) = start_up_time c \<and>
   (start_up_time (do_call env k c) \<noteq> start_up_time c \<longrightarrow>
      is_null (start_up_time c) \<and>
      (\<exists>opt c'. start_up_time c' = start_up_time c \<and>
                 do_call env k c = snd (StartUp env opt c') \<and>
                 start_up_time (do_call env k c) = Now env (now_calls c')))"
proof -
  have setters: "start_up_time (set_setup_in_progress in_progress c) = start_up_time c"
    "start_up_time (OverrideFallbackTimeoutForTest timeout c) = start_up_time c"
    by (simp_all add: set_setup_in_progress_def OverrideFallbackTimeoutForTest_def)
  have fresh: "is_null (start_up_time (StartupController start_behavior))"
    "is_null (start_backend_time (StartupController start_behavior))"
    by (simp_all add: StartupController_def is_null_def)
  have reset: "is_null (start_up_time (Reset c))" "is_null (start_backend_time (Reset c))"
    by (simp_all add: Reset_def perform_def is_null_def)
  show ?thesis
    using fresh reset StartUp_start_up_time_first[of c env opt]
      StartUp_start_up_time_fixed[of c env opt] run_calls_start_up_time_fixed[of c ks]
      run_calls_started[of c ks] run_calls_not_started[of c ks]
      do_call_backend_effect[of env k c] setters do_call_start_up_time_change[of env k c]
    by blast
qed

theorem timestamps_set_once_per_lifetime_witness:
  "run_calls example_calls (StartupController MANUAL_START) =
     \<lparr> received_start_request = True, setup_in_progress = False, auto_start_enabled = False,
       start_up_time = 1000, start_backend_time = 1002, fallback_timeout = 10, now_calls = 3,
       effects =
         [UMA (Sync_RefreshTokenAvailable True), PostDelayedTask 10,
          UMA (Sync_Startup_TimeDeferred 1),
          UMA (Sync_Startup_TypeTriggeringInit BOOKMARKS),
          UMA (Sync_Startup_DeferredInitTrigger TRIGGER_DATA_TYPE_REQUEST),
          UMA (Sync_RefreshTokenAvailable True), StartBackend_Run,
          UMA (Sync_RefreshTokenAvailable True)] \<rparr> \<and>
   backend_runs (run_calls example_calls (StartupController MANUAL_START)) =
     backend_runs (StartupController MANUAL_START) + 1 \<and>
   start_up_time (run_calls (tl example_calls)
                    (do_call example_env Call_TryStart (StartupController MANUAL_START))) =
     start_up_time (do_call example_env Call_TryStart (StartupController MANUAL_START)) \<and>
   start_up_time (do_call example_env Call_TryStart (StartupController MANUAL_START)) = 1000 \<and>
   (\<exists>opt c'. is_null (start_up_time c') \<and>
      do_call example_env Call_TryStart (StartupController MANUAL_START) =
        snd (StartUp example_env opt c') \<and>
      start_up_time (do_call example_env Call_TryStart (StartupController MANUAL_START)) =
        Now example_env (now_calls c'))"
proof -
  let ?c0 = "StartupController MANUAL_START"
  let ?c1 = "do_call example_env Call_TryStart ?c0"
  have run: "run_calls example_calls ?c0 =
     \<lparr> received_start_request = True, setup_in_progress = False, auto_start_enabled = False,
       start_up_time = 1000, start_backend_time = 1002, fallback_timeout = 10, now_calls = 3,
       effects =
         [UMA (Sync_RefreshTokenAvailable True), PostDelayedTask 10,
          UMA (Sync_Startup_TimeDeferred 1),
          UMA (Sync_Startup_TypeTriggeringInit BOOKMARKS),
          UMA (Sync_Startup_DeferredInitTrigger TRIGGER_DATA_TYPE_REQUEST),
          UMA (Sync_RefreshTokenAvailable True), StartBackend_Run,
          UMA (Sync_RefreshTokenAvailable True)] \<rparr>"
    by (simp add: example_calls_def TryStart_def StartUp_def OnDataTypeRequestsSyncStartup_def
        OnFallbackStartupTimerExpired_def Time_Now_def perform_def Let_def is_null_def
        example_env_def StartupController_def kDeferredInitFallbackSeconds_def)
  have clock: "\<forall>(env, k) \<in> set example_calls. \<forall>n. Now env n \<noteq> 0"
    by (simp add: example_calls_def example_env_def)
  have fresh: "is_null (start_backend_time ?c0)"
    by (simp add: StartupController_def is_null_def)
  have started: "\<not> is_null (start_backend_time (run_calls example_calls ?c0))"
    unfolding run by (simp add: is_null_def)
  have first: "\<not> is_null (start_up_time ?c1)"
    by (simp add: TryStart_def StartUp_def Time_Now_def perform_def Let_def is_null_def
        example_env_def StartupController_def)
  have runs: "backend_runs (run_calls example_calls ?c0) = backend_runs ?c0 + 1"
    using timestamps_set_once_per_lifetime[of MANUAL_START ?c0 example_env STARTUP_IMMEDIATE
        example_calls Call_TryStart] clock fresh started
    by simp
  have fixed: "start_up_time (run_calls (tl example_calls) ?c1) = start_up_time ?c1"
    using timestamps_set_once_per_lifetime[of MANUAL_START ?c1 example_env STARTUP_IMMEDIATE
        "tl example_calls" Call_TryStart] first
    by blast
  have stamped: "start_up_time ?c1 = 1000"
    by (simp add: TryStart_def StartUp_def Time_Now_def perform_def Let_def is_null_def
        example_env_def StartupController_def)
  have changed: "start_up_time ?c1 \<noteq> start_up_time ?c0"
    unfolding stamped by (simp add: StartupController_def)
  have through: "\<exists>opt c'. is_null (start_up_time c') \<and> ?c1 = snd (StartUp example_env opt c') \<and>
      start_up_time ?c1 = Now example_env (now_calls c')"
  proof -
    have "is_null (start_up_time ?c0) \<and>
      (\<exists>opt c'. start_up_time c' = start_up_time ?c0 \<and> ?c1 = snd (StartUp example_env opt c') \<and>
         start_up_time ?c1 = Now example_env (now_calls c'))"
      using timestamps_set_once_per_lifetime[of MANUAL_START ?c0 example_env STARTUP_IMMEDIATE
          example_calls Call_TryStart] changed
      by blast
    then show ?thesis by metis
  qed
  show ?thesis using run runs fixed stamped through by simp
qed

section \<open>Properties of the inbound stage\<close>

lemma ApplyChangesFromSyncModel_all_staged:
  "\<forall>it \<in> set changes. lookup_succeeds trans' it \<Longrightarrow>
     ApplyChangesFromSyncModel lib trans' changes p =
       p\<lparr>syncer_changes := syncer_changes p @ map (staged_change trans') changes\<rparr>"
proof (induction changes arbitrary: p)
  case Nil
  then show ?case by simp
next
  case (Cons it changes)
  have ok: "lookup_succeeds trans' it" and rest: "\<forall>it \<in> set changes. lookup_succeeds trans' it"
    using Cons.prems by simp_all
  show ?case
  proof (cases "action it = ChangeRecord_ACTION_DELETE")
    case True
    then show ?thesis using Cons.IH[OF rest] by (simp add: staged_change_def)
  next
    case False
    then have "fst (InitByIdLookup trans' (record_id it)) = INIT_OK"
      using ok by (simp add: lookup_succeeds_def)
    then show ?thesis using False Cons.IH[OF rest] by (simp add: staged_change_def Let_def)
  qed
qed

lemma ApplyChangesFromSyncModel_failing_first:
  assumes "action it \<noteq> ChangeRecord_ACTION_DELETE"
    and "fst (InitByIdLookup trans' (record_id it)) \<noteq> INIT_OK"
  shows "ApplyChangesFromSyncModel lib trans' (it # later) p =
           p\<lparr>error_handler_calls := error_handler_calls p @
               [''Failed to look up data for received change with id '' @
                  Int64ToString lib (record_id it)]\<rparr>"
  using assms by (simp add: Let_def OnSingleDatatypeUnrecoverableError_def)

lemma ApplyChangesFromSyncModel_append:
  "\<forall>it \<in> set earlier. lookup_succeeds trans' it \<Longrightarrow>
     ApplyChangesFromSyncModel lib trans' (earlier @ later) p =
       ApplyChangesFromSyncModel lib trans' later
         (p\<lparr>syncer_changes := syncer_changes p @ map (staged_change trans') earlier\<rparr>)"
proof (induction earlier arbitrary: p)
  case Nil
  then show ?case by simp
next
  case (Cons it earlier)
  have ok: "lookup_succeeds trans' it" and rest: "\<forall>it \<in> set earlier. lookup_succeeds trans' it"
    using Cons.prems by simp_all
  show ?case
  proof (cases "action it = ChangeRecord_ACTION_DELETE")
    case True
    then show ?thesis using Cons.IH[OF rest] by (simp add: staged_change_def)
  next
    case False
    then have "fst (InitByIdLookup trans' (record_id it)) = INIT_OK"
      using ok by (simp add: lookup_succeeds_def)
    then show ?thesis using False Cons.IH[OF rest] by (simp add: staged_change_def Let_def)
  qed
qed

text \<open>
  C1, as the code has it. When the lookup of an Add or Update record fails and the
  records before it were all staged, \<open>ApplyChangesFromSyncModel\<close> gives the error
  handler one message naming the id, returns without looking at the later records,
  and leaves in the staging buffer the entries it staged for the earlier records:
  the buffer is not cleared.
\<close>

theorem ApplyChangesFromSyncModel_lookup_failure_keeps_staged:
  assumes "\<forall>it \<in> set earlier. lookup_succeeds trans' it"
    and "action failing \<noteq> ChangeRecord_ACTION_DELETE"
    and "fst (InitByIdLookup trans' (record_id failing)) \<noteq> INIT_OK"
  shows "ApplyChangesFromSyncModel lib trans' (earlier @ failing # later) p =
           p\<lparr>syncer_changes := syncer_changes p @ map (staged_change trans') earlier,
             error_handler_calls := error_handler_calls p @
               [''Failed to look up data for received change with id '' @
                  Int64ToString lib (record_id failing)]\<rparr>"
  unfolding ApplyChangesFromSyncModel_append[OF assms(1)]
    ApplyChangesFromSyncModel_failing_first[OF assms(2,3)]
  by simp

theorem ApplyChangesFromSyncModel_lookup_failure_keeps_staged_witness:
  "ApplyChangesFromSyncModel example_lib example_trans ([delete9, add7] @ add8 # [delete9])
     example_processor =
   example_processor
     \<lparr>syncer_changes :=
        [\<lparr>change_type = ACTION_DELETE, sync_data = RemoteData 9 (plain ''sdel'')\<rparr>,
         \<lparr>change_type = ACTION_ADD, sync_data = RemoteData 7 (plain ''s7_now'')\<rparr>],
      error_handler_calls := [''Failed to look up data for received change with id 8'']\<rparr>"
proof -
  have earlier: "\<forall>it \<in> set [delete9, add7]. lookup_succeeds example_trans it"
    by (simp add: lookup_succeeds_def delete9_def add7_def example_trans_def)
  have failing: "action add8 \<noteq> ChangeRecord_ACTION_DELETE"
    "fst (InitByIdLookup example_trans (record_id add8)) \<noteq> INIT_OK"
    by (simp_all add: add8_def example_trans_def)
  show ?thesis
    unfolding ApplyChangesFromSyncModel_lookup_failure_keeps_staged[OF earlier failing]
    by (simp add: staged_change_def delete9_def add7_def add8_def example_trans_def
        example_lib_def example_processor_def node7_def CreateRemoteData_def)
qed

text \<open>
  C1 as stated fails: a Delete record followed by an Add record whose node lookup
  fails leaves the Delete entry in the staging buffer.
\<close>

theorem ApplyChangesFromSyncModel_discards_counterexample:
  "ApplyChangesFromSyncModel_DCHECKs example_processor \<and>
   action add8 = ChangeRecord_ACTION_ADD \<and>
   fst (InitByIdLookup example_trans (record_id add8)) \<noteq> INIT_OK \<and>
   syncer_changes (ApplyChangesFromSyncModel example_lib example_trans [delete9, add8]
                     example_processor) =
     [\<lparr>change_type = ACTION_DELETE, sync_data = RemoteData 9 (plain ''sdel'')\<rparr>] \<and>
   syncer_changes (ApplyChangesFromSyncModel example_lib example_trans [delete9, add8]
                     example_processor) \<noteq> []"
  by (simp add: ApplyChangesFromSyncModel_DCHECKs_def example_processor_def add8_def delete9_def
      example_trans_def example_lib_def CreateRemoteData_def Let_def)

lemma ApplyChangesFromSyncModel_frame:
  "running (ApplyChangesFromSyncModel lib trans' changes p) = running p \<and>
   local_service (ApplyChangesFromSyncModel lib trans' changes p) = local_service p \<and>
   delivered (ApplyChangesFromSyncModel lib trans' changes p) = delivered p"
  by (induction changes arbitrary: p) (simp_all add: Let_def)

lemma CommitChangesFromSyncModel_live_service:
  assumes "running p" and "local_service p = Some service"
  shows "syncer_changes (CommitChangesFromSyncModel p) = [] \<and>
         delivered (CommitChangesFromSyncModel p) =
           (if syncer_changes p = [] then delivered p else delivered p @ [syncer_changes p])"
  using assms by (simp add: CommitChangesFromSyncModel_def Let_def split: option.splits)

lemma CommitChangesFromSyncModel_destroyed_service:
  assumes "running p" and "local_service p = None"
  shows "CommitChangesFromSyncModel p =
           (if syncer_changes p = [] then p
            else p\<lparr>error_handler_calls := error_handler_calls p @ [''Local service destroyed.'']\<rparr>)"
  using assms
  by (simp add: CommitChangesFromSyncModel_def Let_def OnSingleDatatypeUnrecoverableError_def)

text \<open>
  C2, as the code has it. For a batch applied and then committed by a running
  processor: while the local service is alive the staging buffer is empty after
  the commit, whether or not the service returns an error, and what was staged has
  been delivered to the service once; when the commit finds the local service
  destroyed it is one of the guard clauses of \<open>CommitChangesFromSyncModel\<close> that
  returns: a non-empty buffer is reported to the error handler and left as the
  apply left it, and nothing is delivered.
\<close>

theorem CommitChangesFromSyncModel_after_apply:
  assumes "running p"
  shows
    "(local_service p \<noteq> None \<longrightarrow>
        syncer_changes
          (CommitChangesFromSyncModel (ApplyChangesFromSyncModel lib trans' changes p)) = [] \<and>
        delivered
          (CommitChangesFromSyncModel (ApplyChangesFromSyncModel lib trans' changes p)) =
          (if syncer_changes (ApplyChangesFromSyncModel lib trans' changes p) = []
           then delivered p
           else delivered p @ [syncer_changes (ApplyChangesFromSyncModel lib trans' changes p)])) \<and>
     (local_service p = None \<longrightarrow>
        CommitChangesFromSyncModel (ApplyChangesFromSyncModel lib trans' changes p) =
          (if syncer_changes (ApplyChangesFromSyncModel lib trans' changes p) = []
           then ApplyChangesFromSyncModel lib trans' changes p
           else (ApplyChangesFromSyncModel lib trans' changes p)
                  \<lparr>error_handler_calls :=
                     error_handler_calls (ApplyChangesFromSyncModel lib trans' changes p) @
                       [''Local service destroyed.'']\<rparr>))"
proof -
  let ?applied = "ApplyChangesFromSyncModel lib trans' changes p"
  have frame: "running ?applied" "local_service ?applied = local_service p"
    "delivered ?applied = delivered p"
    using assms ApplyChangesFromSyncModel_frame[of lib trans' changes p] by simp_all
  have live: "local_service p \<noteq> None \<Longrightarrow>
      syncer_changes (CommitChangesFromSyncModel ?applied) = [] \<and>
      delivered (CommitChangesFromSyncModel ?applied) =
        (if syncer_changes ?applied = [] then delivered p
         else delivered p @ [syncer_changes ?applied])"
    using CommitChangesFromSyncModel_live_service[OF frame(1)] frame(2,3) by auto
  have destroyed: "local_service p = None \<Longrightarrow>
      CommitChangesFromSyncModel ?applied =
        (if syncer_changes ?applied = [] then ?applied
         else ?applied\<lparr>error_handler_calls :=
                error_handler_calls ?applied @ [''Local service destroyed.'']\<rparr>)"
    using CommitChangesFromSyncModel_destroyed_service[OF frame(1)] frame(2) by simp
  show ?thesis using live destroyed by blast
qed

theorem CommitChangesFromSyncModel_after_apply_witness:
  "syncer_changes
     (CommitChangesFromSyncModel
        (ApplyChangesFromSyncModel example_lib example_trans [delete9, add7] example_processor)) = [] \<and>
   delivered
     (CommitChangesFromSyncModel
        (ApplyChangesFromSyncModel example_lib example_trans [delete9, add7] example_processor)) =
     [[\<lparr>change_type = ACTION_DELETE, sync_data = RemoteData 9 (plain ''sdel'')\<rparr>,
       \<lparr>change_type = ACTION_ADD, sync_data = RemoteData 7 (plain ''s7_now'')\<rparr>]] \<and>
   syncer_changes
     (CommitChangesFromSyncModel
        (ApplyChangesFromSyncModel example_lib example_trans [delete9, add7] refusing_processor)) = [] \<and>
   CommitChangesFromSyncModel
     (ApplyChangesFromSyncModel example_lib example_trans [delete9] orphaned_processor) =
     orphaned_processor
       \<lparr>syncer_changes := [\<lparr>change_type = ACTION_DELETE, sync_data = RemoteData 9 (plain ''sdel'')\<rparr>],
        error_handler_calls := [''Local service destroyed.'']\<rparr>"
proof -
  have running: "running example_processor" "running refusing_processor" "running orphaned_processor"
    by (simp_all add: example_processor_def refusing_processor_def orphaned_processor_def)
  have service: "local_service example_processor \<noteq> None" "local_service refusing_processor \<noteq> None"
    "local_service orphaned_processor = None"
    by (simp_all add: example_processor_def refusing_processor_def orphaned_processor_def)
  have staged: "ApplyChangesFromSyncModel example_lib example_trans [delete9, add7] example_processor =
      example_processor
        \<lparr>syncer_changes :=
           [\<lparr>change_type = ACTION_DELETE, sync_data = RemoteData 9 (plain ''sdel'')\<rparr>,
            \<lparr>change_type = ACTION_ADD, sync_data = RemoteData 7 (plain ''s7_now'')\<rparr>]\<rparr>"
    by (simp add: example_processor_def delete9_def add7_def example_trans_def node7_def
        CreateRemoteData_def Let_def)
  have orphan: "ApplyChangesFromSyncModel example_lib example_trans [delete9] orphaned_processor =
      orphaned_processor
        \<lparr>syncer_changes :=
           [\<lparr>change_type = ACTION_DELETE, sync_data = RemoteData 9 (plain ''sdel'')\<rparr>]\<rparr>"
    by (simp add: orphaned_processor_def example_processor_def delete9_def CreateRemoteData_def)
  have live: "syncer_changes
      (CommitChangesFromSyncModel
         (ApplyChangesFromSyncModel example_lib example_trans [delete9, add7] example_processor)) = [] \<and>
    delivered
      (CommitChangesFromSyncModel
         (ApplyChangesFromSyncModel example_lib example_trans [delete9, add7] example_processor)) =
      [[\<lparr>change_type = ACTION_DELETE, sync_data = RemoteData 9 (plain ''sdel'')\<rparr>,
        \<lparr>change_type = ACTION_ADD, sync_data = RemoteData 7 (plain ''s7_now'')\<rparr>]]"
  proof -
    let ?applied = "ApplyChangesFromSyncModel example_lib example_trans [delete9, add7] example_processor"
    have "syncer_changes (CommitChangesFromSyncModel ?applied) = [] \<and>
          delivered (CommitChangesFromSyncModel ?applied) =
            (if syncer_changes ?applied = [] then delivered example_processor
             else delivered example_processor @ [syncer_changes ?applied])"
      using CommitChangesFromSyncModel_after_apply[OF running(1), of example_lib example_trans
          "[delete9, add7]"] service(1)
      by blast
    moreover have "syncer_changes ?applied =
        [\<lparr>change_type = ACTION_DELETE, sync_data = RemoteData 9 (plain ''sdel'')\<rparr>,
         \<lparr>change_type = ACTION_ADD, sync_data = RemoteData 7 (plain ''s7_now'')\<rparr>]"
      unfolding staged by simp
    moreover have "delivered example_processor = []"
      by (simp add: example_processor_def)
    ultimately show ?thesis by simp
  qed
  have refusing: "syncer_changes
      (CommitChangesFromSyncModel
         (ApplyChangesFromSyncModel example_lib example_trans [delete9, add7] refusing_processor)) = []"
    using CommitChangesFromSyncModel_after_apply[OF running(2), of example_lib example_trans
        "[delete9, add7]"] service(2)
    by blast
  have destroyed: "CommitChangesFromSyncModel
      (ApplyChangesFromSyncModel example_lib example_trans [delete9] orphaned_processor) =
      orphaned_processor
        \<lparr>syncer_changes := [\<lparr>change_type = ACTION_DELETE, sync_data = RemoteData 9 (plain ''sdel'')\<rparr>],
         error_handler_calls := [''Local service destroyed.'']\<rparr>"
  proof -
    let ?applied = "ApplyChangesFromSyncModel example_lib example_trans [delete9] orphaned_processor"
    have "CommitChangesFromSyncModel ?applied =
            (if syncer_changes ?applied = [] then ?applied
             else ?applied\<lparr>error_handler_calls :=
                    error_handler_calls ?applied @ [''Local service destroyed.'']\<rparr>)"
      using CommitChangesFromSyncModel_after_apply[OF running(3), of example_lib example_trans
          "[delete9]"] service(3)
      by blast
    then show ?thesis
      unfolding orphan by (simp add: orphaned_processor_def example_processor_def)
  qed
  show ?thesis using live refusing destroyed by simp
qed

text \<open>
  C2 as stated fails where it names the destroyed local service: a running
  processor whose local service is gone applies a batch of one Delete record and
  commits, and the staged entry is still in the buffer after the commit.
\<close>

theorem CommitChangesFromSyncModel_destroyed_service_counterexample:
  "running orphaned_processor \<and>
   syncer_changes orphaned_processor = [] \<and>
   local_service orphaned_processor = None \<and>
   syncer_changes
     (CommitChangesFromSyncModel
        (ApplyChangesFromSyncModel example_lib example_trans [delete9] orphaned_processor)) =
     [\<lparr>change_type = ACTION_DELETE, sync_data = RemoteData 9 (plain ''sdel'')\<rparr>] \<and>
   syncer_changes
     (CommitChangesFromSyncModel
        (ApplyChangesFromSyncModel example_lib example_trans [delete9] orphaned_processor)) \<noteq> [] \<and>
   error_handler_calls
     (CommitChangesFromSyncModel
        (ApplyChangesFromSyncModel example_lib example_trans [delete9] orphaned_processor)) =
     [''Local service destroyed.'']"
  by (simp add: CommitChangesFromSyncModel_def orphaned_processor_def example_processor_def
      delete9_def CreateRemoteData_def Let_def OnSingleDatatypeUnrecoverableError_def)

section \<open>Properties of the outbound stage\<close>

lemma report_eq:
  "report error calls error_handler = (Error error, calls, error_handler @ [message error])"
  by (simp add: report_def OnSingleDatatypeUnrecoverableError_def)

lemma LogLookupFailure_eq:
  "LogLookupFailure lookup_result error_prefix type error_handler =
     report \<lparr>message = error_prefix @ delete_kind_text (delete_kind_of lookup_result),
             error_type = type\<rparr> [] error_handler"
  by (cases lookup_result) (simp_all add: LogLookupFailure_def)

lemma ProcessSyncChanges_body_delete:
  "change_type change = ACTION_DELETE \<Longrightarrow>
     ProcessSyncChanges_body lib trans' change error_handler =
       AttemptDelete change (GetDataType (sync_data change))
         (ModelTypeToString lib (GetDataType (sync_data change))) trans' error_handler"
  by (simp add: ProcessSyncChanges_body_def Let_def)

lemma ProcessSyncChanges_loop_error:
  "ProcessSyncChanges_body lib (share_handle calls) change error_handler =
     (Error error, made, error_handler') \<Longrightarrow>
   ProcessSyncChanges_loop lib share_handle (change # rest) calls error_handler =
     (Error error, calls @ made, error_handler')"
  by simp

lemma ProcessSyncChanges_loop_continue:
  "ProcessSyncChanges_body lib (share_handle calls) change error_handler =
     (NoError, made, error_handler') \<Longrightarrow>
   ProcessSyncChanges_loop lib share_handle (change # rest) calls error_handler =
     ProcessSyncChanges_loop lib share_handle rest (calls @ made) error_handler'"
  by simp

text \<open>
  What the loop does when it reaches a Delete change, with the calls made so far
  and the error handler as they are at that moment.
\<close>

lemma delete_change_pass:
  assumes "change_type change = ACTION_DELETE"
  shows
    "(IsLocal (sync_data change) \<and> GetTag (sync_data change) = [] \<longrightarrow>
        ProcessSyncChanges_loop lib share_handle (change # rest) calls error_handler =
          (Error \<lparr>message = DeleteLocalEmptyTag_message
                               (ModelTypeToString lib (GetDataType (sync_data change))),
                  error_type = GetDataType (sync_data change)\<rparr>,
           calls,
           error_handler @
             [DeleteLocalEmptyTag_message (ModelTypeToString lib (GetDataType (sync_data change)))])) \<and>
     (IsLocal (sync_data change) \<and> GetTag (sync_data change) \<noteq> [] \<and>
      InitByClientTagLookup (share_handle calls) (GetDataType (sync_data change))
        (GetTag (sync_data change)) = (result, node) \<and> result \<noteq> INIT_OK \<longrightarrow>
        ProcessSyncChanges_loop lib share_handle (change # rest) calls error_handler =
          (Error \<lparr>message = ''Failed to delete '' @
                             ModelTypeToString lib (GetDataType (sync_data change)) @
                             '' node. Local data, '' @ delete_kind_text (delete_kind_of result),
                  error_type = GetDataType (sync_data change)\<rparr>,
           calls,
           error_handler @
             [''Failed to delete '' @ ModelTypeToString lib (GetDataType (sync_data change)) @
              '' node. Local data, '' @ delete_kind_text (delete_kind_of result)])) \<and>
     (\<not> IsLocal (sync_data change) \<and>
      InitByIdLookup (share_handle calls) (GetRemoteId (sync_data change)) = (result, node) \<and>
      result \<noteq> INIT_OK \<longrightarrow>
        ProcessSyncChanges_loop lib share_handle (change # rest) calls error_handler =
          (Error \<lparr>message = ''Failed to delete '' @
                             ModelTypeToString lib (GetDataType (sync_data change)) @
                             '' node. Non-local data, '' @ delete_kind_text (delete_kind_of result),
                  error_type = GetDataType (sync_data change)\<rparr>,
           calls,
           error_handler @
             [''Failed to delete '' @ ModelTypeToString lib (GetDataType (sync_data change)) @
              '' node. Non-local data, '' @ delete_kind_text (delete_kind_of result)])) \<and>
     (IsLocal (sync_data change) \<and> GetTag (sync_data change) \<noteq> [] \<and>
      InitByClientTagLookup (share_handle calls) (GetDataType (sync_data change))
        (GetTag (sync_data change)) = (INIT_OK, node) \<longrightarrow>
        ProcessSyncChanges_loop lib share_handle (change # rest) calls error_handler =
          ProcessSyncChanges_loop lib share_handle rest (calls @ [Call_Remove (GetId node)])
            error_handler) \<and>
     (\<not> IsLocal (sync_data change) \<and>
      InitByIdLookup (share_handle calls) (GetRemoteId (sync_data change)) = (INIT_OK, node) \<longrightarrow>
        ProcessSyncChanges_loop lib share_handle (change # rest) calls error_handler =
          ProcessSyncChanges_loop lib share_handle rest (calls @ [Call_Remove (GetId node)])
            error_handler)"
proof -
  let ?T = "GetDataType (sync_data change)"
  let ?T_s = "ModelTypeToString lib ?T"
  let ?trans = "share_handle calls"
  have body: "ProcessSyncChanges_body lib ?trans change error_handler =
                AttemptDelete change ?T ?T_s ?trans error_handler"
    using assms by (rule ProcessSyncChanges_body_delete)
  have empty_tag: "IsLocal (sync_data change) \<and> GetTag (sync_data change) = [] \<Longrightarrow>
      AttemptDelete change ?T ?T_s ?trans error_handler =
        (Error \<lparr>message = DeleteLocalEmptyTag_message ?T_s, error_type = ?T\<rparr>, [],
         error_handler @ [DeleteLocalEmptyTag_message ?T_s])"
    by (simp add: AttemptDelete_def Let_def report_eq DeleteLocalEmptyTag_message_def)
  have local_fail: "IsLocal (sync_data change) \<and> GetTag (sync_data change) \<noteq> [] \<and>
      InitByClientTagLookup ?trans ?T (GetTag (sync_data change)) = (result, node) \<and>
      result \<noteq> INIT_OK \<Longrightarrow>
      AttemptDelete change ?T ?T_s ?trans error_handler =
        (Error \<lparr>message = ''Failed to delete '' @ ?T_s @ '' node. Local data, '' @
                           delete_kind_text (delete_kind_of result), error_type = ?T\<rparr>, [],
         error_handler @ [''Failed to delete '' @ ?T_s @ '' node. Local data, '' @
                           delete_kind_text (delete_kind_of result)])"
    by (simp add: AttemptDelete_def Let_def LogLookupFailure_eq report_eq)
  have remote_fail: "\<not> IsLocal (sync_data change) \<and>
      InitByIdLookup ?trans (GetRemoteId (sync_data change)) = (result, node) \<and>
      result \<noteq> INIT_OK \<Longrightarrow>
      AttemptDelete change ?T ?T_s ?trans error_handler =
        (Error \<lparr>message = ''Failed to delete '' @ ?T_s @ '' node. Non-local data, '' @
                           delete_kind_text (delete_kind_of result), error_type = ?T\<rparr>, [],
         error_handler @ [''Failed to delete '' @ ?T_s @ '' node. Non-local data, '' @
                           delete_kind_text (delete_kind_of result)])"
    by (simp add: AttemptDelete_def Let_def LogLookupFailure_eq report_eq)
  have local_ok: "IsLocal (sync_data change) \<and> GetTag (sync_data change) \<noteq> [] \<and>
      InitByClientTagLookup ?trans ?T (GetTag (sync_data change)) = (INIT_OK, node) \<Longrightarrow>
      AttemptDelete change ?T ?T_s ?trans error_handler =
        (NoError, [Call_Remove (GetId node)], error_handler)"
    by (simp add: AttemptDelete_def Let_def)
  have remote_ok: "\<not> IsLocal (sync_data change) \<and>
      InitByIdLookup ?trans (GetRemoteId (sync_data change)) = (INIT_OK, node) \<Longrightarrow>
      AttemptDelete change ?T ?T_s ?trans error_handler =
        (NoError, [Call_Remove (GetId node)], error_handler)"
    by (simp add: AttemptDelete_def Let_def)
  show ?thesis
    using empty_tag local_fail remote_fail local_ok remote_ok
    by (simp add: body)
qed

lemma encryption_kind_message_inj:
  "encryption_kind_message kind type_str = encryption_kind_message kind' type_str \<Longrightarrow> kind = kind'"
  by (cases kind; cases kind'; simp)

text \<open>
  What the loop does when it reaches an Update change whose lookup fails with a
  result that sends it to the encryption diagnostic.
\<close>

lemma update_encryption_diagnostic_pass:
  assumes "change_type change = ACTION_UPDATE"
    and "InitByClientTagLookup (share_handle calls) (GetDataType (sync_data change))
           (GetTag (sync_data change)) = (result, node)"
    and "result \<notin> {INIT_OK, INIT_FAILED_PRECONDITION, INIT_FAILED_ENTRY_NOT_GOOD,
                    INIT_FAILED_ENTRY_IS_DEL}"
    and "encrypted (SPECIFICS node) = Some blob"
  shows
    "ProcessSyncChanges_loop lib share_handle (change # rest) calls error_handler =
       (Error \<lparr>message =
                 encryption_kind_message
                   (encryption_kind_of
                      (GetDataType (sync_data change) \<in> GetEncryptedTypes (share_handle calls))
                      (CanDecrypt (share_handle calls) blob))
                   (ModelTypeToString lib (GetDataType (sync_data change))),
               error_type = GetDataType (sync_data change)\<rparr>,
        calls,
        error_handler @
          [encryption_kind_message
             (encryption_kind_of
                (GetDataType (sync_data change) \<in> GetEncryptedTypes (share_handle calls))
                (CanDecrypt (share_handle calls) blob))
             (ModelTypeToString lib (GetDataType (sync_data change)))]) \<and>
     (\<forall>kind. encryption_kind_message kind (ModelTypeToString lib (GetDataType (sync_data change))) =
             encryption_kind_message
               (encryption_kind_of
                  (GetDataType (sync_data change) \<in> GetEncryptedTypes (share_handle calls))
                  (CanDecrypt (share_handle calls) blob))
               (ModelTypeToString lib (GetDataType (sync_data change))) \<longrightarrow>
           kind = encryption_kind_of
                    (GetDataType (sync_data change) \<in> GetEncryptedTypes (share_handle calls))
                    (CanDecrypt (share_handle calls) blob))"
proof -
  let ?T = "GetDataType (sync_data change)"
  let ?T_s = "ModelTypeToString lib ?T"
  let ?A = "?T \<in> GetEncryptedTypes (share_handle calls)"
  let ?C = "CanDecrypt (share_handle calls) blob"
  have result: "result \<noteq> INIT_OK" "result \<noteq> INIT_FAILED_PRECONDITION"
    "result \<noteq> INIT_FAILED_ENTRY_NOT_GOOD" "result \<noteq> INIT_FAILED_ENTRY_IS_DEL"
    using assms(3) by simp_all
  have body: "ProcessSyncChanges_body lib (share_handle calls) change error_handler =
      (Error \<lparr>message = encryption_kind_message (encryption_kind_of ?A ?C) ?T_s,
              error_type = ?T\<rparr>, [],
       error_handler @ [encryption_kind_message (encryption_kind_of ?A ?C) ?T_s])"
    using assms(1,2,4) result
    by (cases ?A; cases ?C) (simp_all add: ProcessSyncChanges_body_def Let_def report_eq)
  show ?thesis
    using ProcessSyncChanges_loop_error[where share_handle = share_handle and calls = calls
        and rest = rest, OF body]
      encryption_kind_message_inj
    by auto
qed

subsection \<open>The loop stops at the first error\<close>

lemma AttemptDelete_handler:
  "AttemptDelete change type type_str trans' error_handler = (ending, made, error_handler') \<Longrightarrow>
     error_handler' = (case ending of Error error \<Rightarrow> error_handler @ [message error]
                       | _ \<Rightarrow> error_handler)"
  by (auto simp add: AttemptDelete_def Let_def LogLookupFailure_eq report_eq split: if_splits)

lemma ProcessSyncChanges_body_handler:
  assumes "ProcessSyncChanges_body lib trans' change error_handler = (ending, made, error_handler')"
  shows "error_handler' = (case ending of Error error \<Rightarrow> error_handler @ [message error]
                           | _ \<Rightarrow> error_handler)"
proof (cases "change_type change")
  case ACTION_DELETE
  then show ?thesis using assms AttemptDelete_handler
    by (simp add: ProcessSyncChanges_body_def Let_def)
next
  case ACTION_ADD
  then show ?thesis using assms
    by (auto simp add: ProcessSyncChanges_body_def Let_def report_eq
        split: if_splits InitUniqueByCreationResult.splits)
next
  case ACTION_UPDATE
  then show ?thesis using assms
    by (auto simp add: ProcessSyncChanges_body_def Let_def report_eq
        split: if_splits option.splits)
next
  case ACTION_INVALID
  then show ?thesis using assms
    by (auto simp add: ProcessSyncChanges_body_def Let_def report_eq)
qed

lemma ProcessSyncChanges_loop_no_error:
  "ProcessSyncChanges_loop lib share_handle changes calls error_handler =
     (NoError, calls', error_handler') \<Longrightarrow>
   error_handler' = error_handler \<and> (\<exists>made. calls' = calls @ made)"
proof (induction changes arbitrary: calls error_handler)
  case Nil
  then show ?case by simp
next
  case (Cons change changes)
  obtain ending made h where body:
    "ProcessSyncChanges_body lib (share_handle calls) change error_handler = (ending, made, h)"
    by (cases "ProcessSyncChanges_body lib (share_handle calls) change error_handler") auto
  have ending: "ending = NoError"
    using Cons.prems body by (cases ending) simp_all
  have h: "h = error_handler"
    using ProcessSyncChanges_body_handler[OF body] ending by simp
  have "ProcessSyncChanges_loop lib share_handle changes (calls @ made) error_handler =
          (NoError, calls', error_handler')"
    using Cons.prems body ending h by simp
  from Cons.IH[OF this] show ?case by auto
qed

lemma ProcessSyncChanges_loop_append:
  "ProcessSyncChanges_loop lib share_handle earlier calls error_handler =
     (NoError, calls', error_handler') \<Longrightarrow>
   ProcessSyncChanges_loop lib share_handle (earlier @ later) calls error_handler =
     ProcessSyncChanges_loop lib share_handle later calls' error_handler'"
proof (induction earlier arbitrary: calls error_handler)
  case Nil
  then show ?case by simp
next
  case (Cons change earlier)
  obtain ending made h where body:
    "ProcessSyncChanges_body lib (share_handle calls) change error_handler = (ending, made, h)"
    by (cases "ProcessSyncChanges_body lib (share_handle calls) change error_handler") auto
  have ending: "ending = NoError"
    using Cons.prems body by (cases ending) simp_all
  have "ProcessSyncChanges_loop lib share_handle earlier (calls @ made) h =
          (NoError, calls', error_handler')"
    using Cons.prems body ending by simp
  from Cons.IH[OF this] show ?case using body ending by simp
qed

text \<open>
  C4. Let the changes \<open>earlier\<close> be processed without error, making the mutating
  calls \<open>calls1\<close>, and let the next change end its pass with the error \<open>error\<close>
  after the calls \<open>made\<close>. Then \<open>ProcessSyncChanges\<close> on the whole list, whatever
  changes come later, returns \<open>error\<close>; the error handler has been called once, with the
  message of \<open>error\<close>; and the transaction holds the calls of the earlier changes,
  none undone, followed by those of the failing pass.
\<close>

theorem ProcessSyncChanges_stops_at_first_error:
  assumes "ProcessSyncChanges lib share_handle earlier error_handler = (NoError, calls1, handler1)"
    and "ProcessSyncChanges_body lib (share_handle calls1) change handler1 = (Error error, made, handler2)"
  shows "ProcessSyncChanges lib share_handle (earlier @ change # later) error_handler =
           (Error error, calls1 @ made, error_handler @ [message error])"
proof -
  have earlier: "ProcessSyncChanges_loop lib share_handle earlier [] error_handler =
                   (NoError, calls1, handler1)"
    using assms(1) by (simp add: ProcessSyncChanges_def)
  have handler1: "handler1 = error_handler"
    using ProcessSyncChanges_loop_no_error[OF earlier] by simp
  have handler2: "handler2 = error_handler @ [message error]"
    using ProcessSyncChanges_body_handler[OF assms(2)] handler1 by simp
  have "ProcessSyncChanges_loop lib share_handle (earlier @ change # later) [] error_handler =
          ProcessSyncChanges_loop lib share_handle (change # later) calls1 handler1"
    using earlier by (rule ProcessSyncChanges_loop_append)
  also have "\<dots> = (Error error, calls1 @ made, handler2)"
    using assms(2) by (rule ProcessSyncChanges_loop_error)
  finally show ?thesis
    by (simp add: ProcessSyncChanges_def handler2)
qed

theorem ProcessSyncChanges_stops_at_first_error_witness:
  "ProcessSyncChanges example_lib example_share
     ([add_local_new] @ delete_local_untagged # [update_local_seven, delete_remote7]) [] =
   (Error \<lparr>message = ''Failed to delete Preferences node. Local data, empty tag.'',
           error_type = ModelType 3\<rparr>,
    [Call_InitUniqueByCreation (ModelType 3) 1 ''new'',
     Call_SetTitle 10 ''hello'',
     Call_SetEntitySpecifics 10 (plain ''x'')],
    [''Failed to delete Preferences node. Local data, empty tag.''])"
proof -
  let ?calls1 = "[Call_InitUniqueByCreation (ModelType 3) 1 ''new'', Call_SetTitle 10 ''hello'',
                  Call_SetEntitySpecifics 10 (plain ''x'')]"
  let ?error = "\<lparr>message = ''Failed to delete Preferences node. Local data, empty tag.'',
                 error_type = ModelType 3\<rparr>"
  have earlier: "ProcessSyncChanges example_lib example_share [add_local_new] [] =
                   (NoError, ?calls1, [])"
    by (simp add: ProcessSyncChanges_def ProcessSyncChanges_body_def Let_def add_local_new_def
        example_share_def example_trans_def example_lib_def GetDataType_def plain_def
        root_node_def node_new_def)
  have failing: "ProcessSyncChanges_body example_lib (example_share ?calls1) delete_local_untagged [] =
                   (Error ?error, [], [''Failed to delete Preferences node. Local data, empty tag.''])"
    by (simp add: ProcessSyncChanges_body_def AttemptDelete_def Let_def report_eq
        delete_local_untagged_def example_lib_def GetDataType_def plain_def)
  show ?thesis
    using ProcessSyncChanges_stops_at_first_error[where share_handle = example_share,
        OF earlier failing, of "[update_local_seven, delete_remote7]"]
    by simp
qed

subsection \<open>Delete changes and the encryption diagnostic, as \<open>ProcessSyncChanges\<close> returns them\<close>

lemma ProcessSyncChanges_after:
  assumes "ProcessSyncChanges lib share_handle earlier error_handler = (NoError, calls, handler1)"
  shows "ProcessSyncChanges lib share_handle (earlier @ later) error_handler =
           ProcessSyncChanges_loop lib share_handle later calls error_handler"
proof -
  have earlier: "ProcessSyncChanges_loop lib share_handle earlier [] error_handler =
                   (NoError, calls, handler1)"
    using assms by (simp add: ProcessSyncChanges_def)
  have "handler1 = error_handler"
    using ProcessSyncChanges_loop_no_error[OF earlier] by simp
  then show ?thesis
    using ProcessSyncChanges_loop_append[OF earlier, of later]
    by (simp add: ProcessSyncChanges_def)
qed

text \<open>
  C6. Let \<open>ProcessSyncChanges\<close> process the changes \<open>earlier\<close> (possibly none)
  without error, making the mutating calls \<open>calls\<close>, and let the next change be a
  Delete (type \<open>T\<close>, with name \<open>T_s\<close>). If its data is local with an empty tag,
  \<open>ProcessSyncChanges\<close> returns the \<open>DeleteLocalEmptyTag\<close> error, reported once to
  the handler, and no mutating call is added. If the lookup (by client tag for local
  data, by remote id for remote data) fails, it returns and reports the error whose
  text after the prefix is that of the kind \<open>delete_kind_of\<close> assigns to the
  lookup result (\<open>EntryNotGood\<close> to \<open>DeleteBadEntry\<close>, \<open>EntryIsDeleted\<close> to
  \<open>DeleteAlreadyDeleted\<close>, \<open>DecryptIfNecessary\<close> to \<open>DeleteUndecryptable\<close>,
  \<open>PreconditionFailed\<close> to \<open>DeletePrecondition\<close>, anything else to
  \<open>DeleteUnknown\<close>), again with no mutating call added. If the lookup succeeds,
  \<open>Remove\<close> is called on the node found and no error arises from the change. So
  \<open>Remove\<close> is called exactly when the lookup succeeds.
\<close>

theorem delete_change_outcome:
  assumes "ProcessSyncChanges lib share_handle earlier error_handler = (NoError, calls, handler1)"
    and "change_type change = ACTION_DELETE"
  shows
    "(IsLocal (sync_data change) \<and> GetTag (sync_data change) = [] \<longrightarrow>
        ProcessSyncChanges lib share_handle (earlier @ change # rest) error_handler =
          (Error \<lparr>message = DeleteLocalEmptyTag_message
                               (ModelTypeToString lib (GetDataType (sync_data change))),
                  error_type = GetDataType (sync_data change)\<rparr>,
           calls,
           error_handler @
             [DeleteLocalEmptyTag_message (ModelTypeToString lib (GetDataType (sync_data change)))])) \<and>
     (IsLocal (sync_data change) \<and> GetTag (sync_data change) \<noteq> [] \<and>
      InitByClientTagLookup (share_handle calls) (GetDataType (sync_data change))
        (GetTag (sync_data change)) = (result, node) \<and> result \<noteq> INIT_OK \<longrightarrow>
        ProcessSyncChanges lib share_handle (earlier @ change # rest) error_handler =
          (Error \<lparr>message = ''Failed to delete '' @
                             ModelTypeToString lib (GetDataType (sync_data change)) @
                             '' node. Local data, '' @ delete_kind_text (delete_kind_of result),
                  error_type = GetDataType (sync_data change)\<rparr>,
           calls,
           error_handler @
             [''Failed to delete '' @ ModelTypeToString lib (GetDataType (sync_data change)) @
              '' node. Local data, '' @ delete_kind_text (delete_kind_of result)])) \<and>
     (\<not> IsLocal (sync_data change) \<and>
      InitByIdLookup (share_handle calls) (GetRemoteId (sync_data change)) = (result, node) \<and>
      result \<noteq> INIT_OK \<longrightarrow>
        ProcessSyncChanges lib share_handle (earlier @ change # rest) error_handler =
          (Error \<lparr>message = ''Failed to delete '' @
                             ModelTypeToString lib (GetDataType (sync_data change)) @
                             '' node. Non-local data, '' @ delete_kind_text (delete_kind_of result),
                  error_type = GetDataType (sync_data change)\<rparr>,
           calls,
           error_handler @
             [''Failed to delete '' @ ModelTypeToString lib (GetDataType (sync_data change)) @
              '' node. Non-local data, '' @ delete_kind_text (delete_kind_of result)])) \<and>
     (IsLocal (sync_data change) \<and> GetTag (sync_data change) \<noteq> [] \<and>
      InitByClientTagLookup (share_handle calls) (GetDataType (sync_data change))
        (GetTag (sync_data change)) = (INIT_OK, node) \<longrightarrow>
        ProcessSyncChanges lib share_handle (earlier @ [change]) error_handler =
          (NoError, calls @ [Call_Remove (GetId node)], error_handler)) \<and>
     (\<not> IsLocal (sync_data change) \<and>
      InitByIdLookup (share_handle calls) (GetRemoteId (sync_data change)) = (INIT_OK, node) \<longrightarrow>
        ProcessSyncChanges lib share_handle (earlier @ [change]) error_handler =
          (NoError, calls @ [Call_Remove (GetId node)], error_handler))"
proof -
  have run: "\<And>later. ProcessSyncChanges lib share_handle (earlier @ later) error_handler =
                      ProcessSyncChanges_loop lib share_handle later calls error_handler"
    using assms(1) by (rule ProcessSyncChanges_after)
  show ?thesis
    unfolding run
    using delete_change_pass[OF assms(2), of lib share_handle rest calls error_handler result node]
      delete_change_pass[OF assms(2), of lib share_handle "[]" calls error_handler result node]
    by (simp del: ProcessSyncChanges_loop.simps(2))
qed

theorem delete_change_outcome_witness:
  "ProcessSyncChanges example_lib example_share [delete_local_untagged, delete_remote7] [] =
     (Error \<lparr>message = ''Failed to delete Preferences node. Local data, empty tag.'',
             error_type = ModelType 3\<rparr>,
      [], [''Failed to delete Preferences node. Local data, empty tag.'']) \<and>
   ProcessSyncChanges example_lib example_share [delete_local_k, delete_remote7] [] =
     (Error \<lparr>message = ''Failed to delete Preferences node. Local data, unable to decrypt'',
             error_type = ModelType 3\<rparr>,
      [], [''Failed to delete Preferences node. Local data, unable to decrypt'']) \<and>
   ProcessSyncChanges example_lib example_share [delete_remote8, delete_remote7] [] =
     (Error \<lparr>message = ''Failed to delete Preferences node. Non-local data, could not find entry matching the lookup criteria.'',
             error_type = ModelType 3\<rparr>,
      [], [''Failed to delete Preferences node. Non-local data, could not find entry matching the lookup criteria.'']) \<and>
   ProcessSyncChanges example_lib example_share [delete_remote7] [] =
     (NoError, [Call_Remove 7], [])"
proof -
  have none: "ProcessSyncChanges example_lib example_share [] [] = (NoError, [], [])"
    by (simp add: ProcessSyncChanges_def)
  have untagged: "change_type delete_local_untagged = ACTION_DELETE"
    "IsLocal (sync_data delete_local_untagged) \<and> GetTag (sync_data delete_local_untagged) = []"
    by (simp_all add: delete_local_untagged_def)
  have k: "change_type delete_local_k = ACTION_DELETE"
    "IsLocal (sync_data delete_local_k) \<and> GetTag (sync_data delete_local_k) \<noteq> [] \<and>
     InitByClientTagLookup (example_share []) (GetDataType (sync_data delete_local_k))
       (GetTag (sync_data delete_local_k)) = (INIT_FAILED_DECRYPT_IF_NECESSARY, node_k) \<and>
     INIT_FAILED_DECRYPT_IF_NECESSARY \<noteq> INIT_OK"
    by (simp_all add: delete_local_k_def example_share_def example_trans_def)
  have r8: "change_type delete_remote8 = ACTION_DELETE"
    "\<not> IsLocal (sync_data delete_remote8) \<and>
     InitByIdLookup (example_share []) (GetRemoteId (sync_data delete_remote8)) =
       (INIT_FAILED_ENTRY_NOT_GOOD, no_node) \<and>
     INIT_FAILED_ENTRY_NOT_GOOD \<noteq> INIT_OK"
    by (simp_all add: delete_remote8_def example_share_def example_trans_def)
  have r7: "change_type delete_remote7 = ACTION_DELETE"
    "\<not> IsLocal (sync_data delete_remote7) \<and>
     InitByIdLookup (example_share []) (GetRemoteId (sync_data delete_remote7)) = (INIT_OK, node7)"
    by (simp_all add: delete_remote7_def example_share_def example_trans_def)
  have names: "ModelTypeToString example_lib (GetDataType (sync_data delete_local_untagged)) = ''Preferences''"
    "ModelTypeToString example_lib (GetDataType (sync_data delete_local_k)) = ''Preferences''"
    "ModelTypeToString example_lib (GetDataType (sync_data delete_remote8)) = ''Preferences''"
    "GetDataType (sync_data delete_local_untagged) = ModelType 3"
    "GetDataType (sync_data delete_local_k) = ModelType 3"
    "GetDataType (sync_data delete_remote8) = ModelType 3"
    "GetId node7 = 7"
    "ModelTypeToString example_lib (ModelType 3) = ''Preferences''"
    by (simp_all add: example_lib_def GetDataType_def plain_def node7_def
        delete_local_untagged_def delete_local_k_def delete_remote8_def)
  have c1: "ProcessSyncChanges example_lib example_share ([] @ delete_local_untagged # [delete_remote7]) [] =
     (Error \<lparr>message = ''Failed to delete Preferences node. Local data, empty tag.'',
             error_type = ModelType 3\<rparr>,
      [], [''Failed to delete Preferences node. Local data, empty tag.''])"
    using delete_change_outcome[OF none untagged(1), of "[delete_remote7]"] untagged(2)
    by (simp add: names DeleteLocalEmptyTag_message_def del: ProcessSyncChanges_loop.simps)
  have c2: "ProcessSyncChanges example_lib example_share ([] @ delete_local_k # [delete_remote7]) [] =
     (Error \<lparr>message = ''Failed to delete Preferences node. Local data, unable to decrypt'',
             error_type = ModelType 3\<rparr>,
      [], [''Failed to delete Preferences node. Local data, unable to decrypt''])"
    using delete_change_outcome[OF none k(1), of "[delete_remote7]" INIT_FAILED_DECRYPT_IF_NECESSARY
        node_k] k(2)
    by (simp add: names del: ProcessSyncChanges_loop.simps)
  have c3: "ProcessSyncChanges example_lib example_share ([] @ delete_remote8 # [delete_remote7]) [] =
     (Error \<lparr>message = ''Failed to delete Preferences node. Non-local data, could not find entry matching the lookup criteria.'',
             error_type = ModelType 3\<rparr>,
      [], [''Failed to delete Preferences node. Non-local data, could not find entry matching the lookup criteria.''])"
    using delete_change_outcome[OF none r8(1), of "[delete_remote7]" INIT_FAILED_ENTRY_NOT_GOOD
        no_node] r8(2)
    by (simp add: names del: ProcessSyncChanges_loop.simps)
  have c4: "ProcessSyncChanges example_lib example_share ([] @ [delete_remote7]) [] =
     (NoError, [] @ [Call_Remove 7], [])"
    using delete_change_outcome[OF none r7(1), of "[]" INIT_OK node7] r7(2)
    by (simp add: names del: ProcessSyncChanges_loop.simps)
  show ?thesis using c1 c2 c3 c4 by simp
qed

text \<open>
  C3. Let \<open>ProcessSyncChanges\<close> process the changes \<open>earlier\<close> (possibly none)
  without error, and let the next change be an Update whose lookup by client tag
  fails with a result other than \<open>PreconditionFailed\<close>, \<open>EntryNotGood\<close> and
  \<open>EntryIsDeleted\<close>, the raw specifics of the entry carrying the \<open>encrypted\<close>
  field. Then \<open>ProcessSyncChanges\<close> returns, and reports once to the handler, the
  error that the table \<open>encryption_kind_of\<close> selects from \<open>A\<close> (the type is in
  the encrypted set) and \<open>C\<close> (the cryptographer can decrypt the field); no other
  of the four kinds has that message, and no mutating call is added.
\<close>

theorem update_encryption_diagnostic:
  assumes "ProcessSyncChanges lib share_handle earlier error_handler = (NoError, calls, handler1)"
    and "change_type change = ACTION_UPDATE"
    and "InitByClientTagLookup (share_handle calls) (GetDataType (sync_data change))
           (GetTag (sync_data change)) = (result, node)"
    and "result \<notin> {INIT_OK, INIT_FAILED_PRECONDITION, INIT_FAILED_ENTRY_NOT_GOOD,
                    INIT_FAILED_ENTRY_IS_DEL}"
    and "encrypted (SPECIFICS node) = Some blob"
  shows
    "ProcessSyncChanges lib share_handle (earlier @ change # rest) error_handler =
       (Error \<lparr>message =
                 encryption_kind_message
                   (encryption_kind_of
                      (GetDataType (sync_data change) \<in> GetEncryptedTypes (share_handle calls))
                      (CanDecrypt (share_handle calls) blob))
                   (ModelTypeToString lib (GetDataType (sync_data change))),
               error_type = GetDataType (sync_data change)\<rparr>,
        calls,
        error_handler @
          [encryption_kind_message
             (encryption_kind_of
                (GetDataType (sync_data change) \<in> GetEncryptedTypes (share_handle calls))
                (CanDecrypt (share_handle calls) blob))
             (ModelTypeToString lib (GetDataType (sync_data change)))]) \<and>
     (\<forall>kind. encryption_kind_message kind (ModelTypeToString lib (GetDataType (sync_data change))) =
             encryption_kind_message
               (encryption_kind_of
                  (GetDataType (sync_data change) \<in> GetEncryptedTypes (share_handle calls))
                  (CanDecrypt (share_handle calls) blob))
               (ModelTypeToString lib (GetDataType (sync_data change))) \<longrightarrow>
           kind = encryption_kind_of
                    (GetDataType (sync_data change) \<in> GetEncryptedTypes (share_handle calls))
                    (CanDecrypt (share_handle calls) blob))"
proof -
  have run: "ProcessSyncChanges lib share_handle (earlier @ change # rest) error_handler =
               ProcessSyncChanges_loop lib share_handle (change # rest) calls error_handler"
    using assms(1) by (rule ProcessSyncChanges_after)
  show ?thesis
    unfolding run
    using update_encryption_diagnostic_pass[where share_handle = share_handle and calls = calls
        and lib = lib and rest = rest and error_handler = error_handler, OF assms(2,3,4,5)]
    by (simp del: ProcessSyncChanges_loop.simps)
qed

theorem update_encryption_diagnostic_witness:
  "ProcessSyncChanges example_lib example_share
     ([add_local_new] @ update_local_k # [delete_remote7]) [] =
     (Error \<lparr>message = ''Failed to load encrypted entry, missing key and the nigori matches for Preferences.'',
             error_type = ModelType 3\<rparr>,
      [Call_InitUniqueByCreation (ModelType 3) 1 ''new'',
       Call_SetTitle 10 ''hello'',
       Call_SetEntitySpecifics 10 (plain ''x'')],
      [''Failed to load encrypted entry, missing key and the nigori matches for Preferences.''])"
proof -
  let ?calls = "[Call_InitUniqueByCreation (ModelType 3) 1 ''new'', Call_SetTitle 10 ''hello'',
                 Call_SetEntitySpecifics 10 (plain ''x'')]"
  have earlier: "ProcessSyncChanges example_lib example_share [add_local_new] [] =
                   (NoError, ?calls, [])"
    by (simp add: ProcessSyncChanges_def ProcessSyncChanges_body_def Let_def add_local_new_def
        example_share_def example_trans_def example_lib_def GetDataType_def plain_def
        root_node_def node_new_def)
  have update: "change_type update_local_k = ACTION_UPDATE"
    by (simp add: update_local_k_def)
  have lookup: "InitByClientTagLookup (example_share ?calls) (GetDataType (sync_data update_local_k))
      (GetTag (sync_data update_local_k)) = (INIT_FAILED_DECRYPT_IF_NECESSARY, node_k)"
    by (simp add: update_local_k_def example_share_def example_trans_def)
  have other: "INIT_FAILED_DECRYPT_IF_NECESSARY \<notin>
      {INIT_OK, INIT_FAILED_PRECONDITION, INIT_FAILED_ENTRY_NOT_GOOD, INIT_FAILED_ENTRY_IS_DEL}"
    by simp
  have marker: "encrypted (SPECIFICS node_k) = Some ''blob''"
    by (simp add: node_k_def)
  have table: "GetDataType (sync_data update_local_k) = ModelType 3"
    "ModelTypeToString example_lib (ModelType 3) = ''Preferences''"
    "ModelType 3 \<in> GetEncryptedTypes (example_share ?calls)"
    "\<not> CanDecrypt (example_share ?calls) ''blob''"
    by (simp_all add: update_local_k_def GetDataType_def plain_def example_lib_def
        example_share_def example_trans_def)
  have "ProcessSyncChanges example_lib example_share
          ([add_local_new] @ update_local_k # [delete_remote7]) [] =
     (Error \<lparr>message = encryption_kind_message EncrMissingKeyNigoriMatches ''Preferences'',
             error_type = ModelType 3\<rparr>,
      ?calls, [] @ [encryption_kind_message EncrMissingKeyNigoriMatches ''Preferences''])"
    using update_encryption_diagnostic[where share_handle = example_share and calls = ?calls
        and lib = example_lib and rest = "[delete_remote7]" and error_handler = "[]"
        and earlier = "[add_local_new]",
        OF earlier update lookup other marker] table
    by (simp del: ProcessSyncChanges_loop.simps encryption_kind_message.simps)
  then show ?thesis by simp
qed

section \<open>Properties of \<open>GetSyncDataForType\<close>\<close>

lemma GetSyncDataForType_loop_chain:
  "sibling_chain lib trans' first visited next \<Longrightarrow>
     GetSyncDataForType_loop lib trans' type type_name first current_sync_data =
       GetSyncDataForType_loop lib trans' type type_name next
         (current_sync_data @ map (child_data trans') visited)"
proof (induction visited arbitrary: first current_sync_data)
  case Nil
  then show ?case by simp
next
  case (Cons i visited)
  have first: "first = i" and valid: "i \<noteq> kInvalidId lib"
    and ok: "fst (InitByIdLookup trans' i) = INIT_OK"
    and rest: "sibling_chain lib trans' (GetSuccessorId (snd (InitByIdLookup trans' i))) visited next"
    using Cons.prems by simp_all
  have "GetSyncDataForType_loop lib trans' type type_name first current_sync_data =
          GetSyncDataForType_loop lib trans' type type_name
            (GetSuccessorId (snd (InitByIdLookup trans' i)))
            (current_sync_data @ [child_data trans' i])"
    unfolding first
    by (subst GetSyncDataForType_loop.simps) (simp add: valid ok Let_def child_data_def)
  also have "\<dots> = GetSyncDataForType_loop lib trans' type type_name next
                     ((current_sync_data @ [child_data trans' i]) @ map (child_data trans') visited)"
    using rest by (rule Cons.IH)
  finally show ?case by simp
qed

lemma GetSyncDataForType_loop_failure:
  "sync_child_id \<noteq> kInvalidId lib \<Longrightarrow> fst (InitByIdLookup trans' sync_child_id) \<noteq> INIT_OK \<Longrightarrow>
     GetSyncDataForType_loop lib trans' type type_name sync_child_id current_sync_data =
       Some (Some \<lparr>message = ''Failed to fetch child node for type '' @ type_name @ ''.'',
                    error_type = type\<rparr>,
             current_sync_data)"
  by (subst GetSyncDataForType_loop.simps) (simp add: Let_def)

text \<open>
  C9. When the type's root is found and the traversal of its children, after
  visiting the nodes \<open>visited\<close> (possibly none), turns to a valid id whose lookup
  fails, \<open>GetSyncDataForType\<close> returns (it does not run on) with the error
  tagged with the datatype, and the caller's list holds what it held before followed
  by the remote data of the nodes visited: nothing is removed from it.
\<close>

theorem GetSyncDataForType_failure_keeps_output:
  assumes "fst (InitByTagLookup trans' (ModelTypeToRootTag lib type)) = INIT_OK"
    and "sibling_chain lib trans'
           (GetFirstChildId (snd (InitByTagLookup trans' (ModelTypeToRootTag lib type))))
           visited failing"
    and "failing \<noteq> kInvalidId lib"
    and "fst (InitByIdLookup trans' failing) \<noteq> INIT_OK"
  shows "GetSyncDataForType lib trans' type current_sync_data =
           Some (Some \<lparr>message = ''Failed to fetch child node for type '' @
                                   ModelTypeToString lib type @ ''.'',
                        error_type = type\<rparr>,
                 current_sync_data @ map (child_data trans') visited)"
proof -
  have "GetSyncDataForType lib trans' type current_sync_data =
          GetSyncDataForType_loop lib trans' type (ModelTypeToString lib type)
            (GetFirstChildId (snd (InitByTagLookup trans' (ModelTypeToRootTag lib type))))
            current_sync_data"
    using assms(1) by (simp add: GetSyncDataForType_def Let_def)
  also have "\<dots> = GetSyncDataForType_loop lib trans' type (ModelTypeToString lib type) failing
                     (current_sync_data @ map (child_data trans') visited)"
    using assms(2) by (rule GetSyncDataForType_loop_chain)
  also have "\<dots> = Some (Some \<lparr>message = ''Failed to fetch child node for type '' @
                                         ModelTypeToString lib type @ ''.'',
                              error_type = type\<rparr>,
                       current_sync_data @ map (child_data trans') visited)"
    using assms(3,4) by (rule GetSyncDataForType_loop_failure)
  finally show ?thesis .
qed

theorem GetSyncDataForType_failure_keeps_output_witness:
  "GetSyncDataForType example_lib example_trans example_type [RemoteData 5 (plain ''before'')] =
     Some (Some \<lparr>message = ''Failed to fetch child node for type Preferences.'',
                  error_type = ModelType 3\<rparr>,
           [RemoteData 5 (plain ''before''), RemoteData 7 (plain ''s7_now'')])"
proof -
  have root: "fst (InitByTagLookup example_trans (ModelTypeToRootTag example_lib example_type)) = INIT_OK"
    by (simp add: example_trans_def example_lib_def example_type_def)
  have chain: "sibling_chain example_lib example_trans
      (GetFirstChildId (snd (InitByTagLookup example_trans
         (ModelTypeToRootTag example_lib example_type)))) [7] 8"
    by (simp add: example_trans_def example_lib_def example_type_def root_node_def node7_def)
  have failing: "8 \<noteq> kInvalidId example_lib" "fst (InitByIdLookup example_trans 8) \<noteq> INIT_OK"
    by (simp_all add: example_trans_def example_lib_def)
  show ?thesis
    unfolding GetSyncDataForType_failure_keeps_output[OF root chain failing]
    by (simp add: child_data_def example_trans_def example_lib_def example_type_def node7_def
        CreateRemoteData_def)
qed

end
